theory Spec2Isabelle
  imports Main
begin

section \<open>Values, documents and the world the data-access layer runs in\<close>

text \<open>
  The module \<^verbatim>\<open>src/types/user.ts\<close> is a sequence of awaited calls to a hosted document
  store, an identity provider, an analytics sink and a text-generation endpoint.  Each
  exported function is modelled as a function from the world before the call to the
  outcome of the call and the world after it.  A JavaScript exception is a value of the
  outcome type, so that every \<^verbatim>\<open>throw\<close> and every \<^verbatim>\<open>catch\<close> of the source is
  a branch of the model.
\<close>

text \<open>
  A thrown value: an \<^verbatim>\<open>Error\<close> instance with its optional \<^verbatim>\<open>code\<close> property
  (set by the Firebase client, absent on \<^verbatim>\<open>new Error(msg)\<close>) and its message, or some
  other thrown value, which is not an \<^verbatim>\<open>Error\<close> instance and has no \<^verbatim>\<open>code\<close>.
\<close>

datatype exn = JsError "string option" string | NonError

fun code :: "exn \<Rightarrow> string option" where
  "code (JsError c m) = c"
| "code NonError = None"

text \<open>\<^verbatim>\<open>error instanceof Error ? error.message : 'Unknown error'\<close>\<close>

fun message_or_unknown :: "exn \<Rightarrow> string" where
  "message_or_unknown (JsError c m) = m"
| "message_or_unknown NonError = ''Unknown error''"

datatype 'a outcome = Returned 'a | Thrown exn

text \<open>
  Timestamps are the values of \<^verbatim>\<open>new Date().toISOString()\<close>; the model keeps the
  instant (milliseconds) instead of its rendering as text.
\<close>

type_synonym timestamp = nat

datatype theme = Light | Dark

record preferences =
  dietaryRestrictions :: "string list"
  servingSize :: nat
  theme :: theme

text \<open>
  The interface \<^verbatim>\<open>UserData\<close>, with one more field: \<^verbatim>\<open>addPremiumUser\<close> also stores
  \<^verbatim>\<open>premiumDocId\<close> in the document.  Optional fields are options; the two lists of
  opaque values are lists of strings.
\<close>

record UserData =
  username :: string
  email :: string
  isPremium :: bool
  premiumSince :: "timestamp option"
  stripeSessionId :: "string option"
  stripeSubscriptionActive :: "bool option"
  stripeCustomerId :: "string option"
  savedRecipes :: "string list"
  mealPlans :: "string list"
  preferences :: preferences
  lastVerified :: "timestamp option"
  createdAt :: timestamp
  updatedAt :: timestamp
  premiumDocId :: "string option"

text \<open>A document of the collection \<^verbatim>\<open>premiumUsers\<close>.\<close>

record PremiumUser =
  sub_email :: string
  sub_userId :: string
  sub_active :: bool
  sub_stripeSubscriptionActive :: bool
  sub_createdAt :: timestamp
  sub_updatedAt :: timestamp

text \<open>What \<^verbatim>\<open>verifyPremiumStatus\<close> returns.\<close>

record verification =
  res_isPremium :: bool
  res_lastVerified :: timestamp
  res_error :: "string option"

datatype param = PString string | PBool bool | PTime timestamp | PCount nat | PStrings "string list"

type_synonym event = "string \<times> (string \<times> param) list"

text \<open>
  The world: the two collections of the document store (\<^verbatim>\<open>users\<close> keyed by account
  id; \<^verbatim>\<open>premiumUsers\<close> as the list of its documents with their ids, in the order a
  query returns them), the signed-in account \<^verbatim>\<open>auth.currentUser\<close>, the display names
  held by the identity provider, the analytics sink and whether it accepts events, the
  clock (read by \<^verbatim>\<open>new Date()\<close>; it does not advance during one call of an exported
  function), and the script of the remote calls to come: each awaited call to a hosted
  service takes the head of \<open>faults\<close>, and fails with that error when it is one.  An
  exhausted script means that every further call succeeds.
\<close>

record world =
  users :: "string \<rightharpoonup> UserData"
  premiumUsers :: "(string \<times> PremiumUser) list"
  currentUser :: "string option"
  displayNames :: "string \<rightharpoonup> string"
  analyticsLog :: "event list"
  analyticsUp :: bool
  clock :: timestamp
  faults :: "exn option list"

type_synonym 'a io = "world \<Rightarrow> 'a outcome \<times> world"

subsection \<open>Sequencing, throwing and catching\<close>

definition return_io :: "'a \<Rightarrow> 'a io" where
  "return_io a s = (Returned a, s)"

definition throw_io :: "exn \<Rightarrow> 'a io" where
  "throw_io e s = (Thrown e, s)"

text \<open>\<open>bind_io m k\<close> is \<^verbatim>\<open>const a = await m; k(a)\<close>: an exception of \<open>m\<close> skips \<open>k\<close>.\<close>

definition bind_io :: "'a io \<Rightarrow> ('a \<Rightarrow> 'b io) \<Rightarrow> 'b io" where
  "bind_io m k s = (case m s of (Returned a, s') \<Rightarrow> k a s' | (Thrown e, s') \<Rightarrow> (Thrown e, s'))"

text \<open>\<open>try_catch m h\<close> is \<^verbatim>\<open>try { m } catch (error) { h(error) }\<close>.\<close>

definition try_catch :: "'a io \<Rightarrow> (exn \<Rightarrow> 'a io) \<Rightarrow> 'a io" where
  "try_catch m h s = (case m s of (Returned a, s') \<Rightarrow> (Returned a, s') | (Thrown e, s') \<Rightarrow> h e s')"

text \<open>\<^verbatim>\<open>new Date().toISOString()\<close>\<close>

definition now_io :: "timestamp io" where
  "now_io s = (Returned (clock s), s)"

text \<open>One awaited call to a hosted service: it consumes one entry of the script.\<close>

definition remote_call :: "unit io" where
  "remote_call s =
     (case faults s of
        [] \<Rightarrow> (Returned (), s)
      | None # fs \<Rightarrow> (Returned (), s\<lparr>faults := fs\<rparr>)
      | Some e # fs \<Rightarrow> (Thrown e, s\<lparr>faults := fs\<rparr>))"

text \<open>No remote call of the script fails.\<close>

definition reliable :: "world \<Rightarrow> bool" where
  "reliable s = list_all (\<lambda>f. f = None) (faults s)"

subsection \<open>The document store\<close>

text \<open>\<^verbatim>\<open>getDoc(doc(db, 'users', userId))\<close>: the snapshot; \<open>None\<close> when \<^verbatim>\<open>exists()\<close> is false.\<close>

definition getDoc_users :: "string \<Rightarrow> UserData option io" where
  "getDoc_users userId = bind_io remote_call (\<lambda>_ s. (Returned (users s userId), s))"

text \<open>
  \<^verbatim>\<open>updateDoc(doc(db, 'users', userId), fields)\<close>: the fields are given as the function
  that writes them into the document.  The store rejects an update of a document that
  does not exist.
\<close>

definition updateDoc_users :: "string \<Rightarrow> (UserData \<Rightarrow> UserData) \<Rightarrow> unit io" where
  "updateDoc_users userId upd = bind_io remote_call (\<lambda>_ s.
     (case users s userId of
        None \<Rightarrow> (Thrown (JsError (Some ''not-found'') ''No document to update''), s)
      | Some d \<Rightarrow> (Returned (), s\<lparr>users := (users s)(userId \<mapsto> upd d)\<rparr>)))"

text \<open>\<^verbatim>\<open>setDoc(doc(db, 'users', userId), data)\<close>: creates or overwrites the document.\<close>

definition setDoc_users :: "string \<Rightarrow> UserData \<Rightarrow> unit io" where
  "setDoc_users userId d = bind_io remote_call (\<lambda>_ s.
     (Returned (), s\<lparr>users := (users s)(userId \<mapsto> d)\<rparr>))"

text \<open>
  \<^verbatim>\<open>getDocs(query(collection(db, 'premiumUsers'), where ...))\<close>: the equality filters
  are given as a predicate on the document; the snapshot's \<^verbatim>\<open>docs\<close> are the documents
  that satisfy it.
\<close>

definition getDocs_premiumUsers :: "(PremiumUser \<Rightarrow> bool) \<Rightarrow> (string \<times> PremiumUser) list io" where
  "getDocs_premiumUsers wheres = bind_io remote_call (\<lambda>_ s.
     (Returned (filter (\<lambda>(docId, d). wheres d) (premiumUsers s)), s))"

definition updateDoc_premiumUsers :: "string \<Rightarrow> (PremiumUser \<Rightarrow> PremiumUser) \<Rightarrow> unit io" where
  "updateDoc_premiumUsers docId upd = bind_io remote_call (\<lambda>_ s.
     (if docId \<in> fst ` set (premiumUsers s)
      then (Returned (),
            s\<lparr>premiumUsers := map (\<lambda>(k, d). if k = docId then (k, upd d) else (k, d)) (premiumUsers s)\<rparr>)
      else (Thrown (JsError (Some ''not-found'') ''No document to update''), s)))"

definition setDoc_premiumUsers :: "string \<Rightarrow> PremiumUser \<Rightarrow> unit io" where
  "setDoc_premiumUsers docId d = bind_io remote_call (\<lambda>_ s.
     (Returned (),
      s\<lparr>premiumUsers :=
          (if docId \<in> fst ` set (premiumUsers s)
           then map (\<lambda>(k, d'). if k = docId then (k, d) else (k, d')) (premiumUsers s)
           else premiumUsers s @ [(docId, d)])\<rparr>))"

subsection \<open>Analytics\<close>

text \<open>
  What \<^verbatim>\<open>logEvent(analytics, eventName, eventParams)\<close> leaves behind: the event in
  the sink, or nothing when the sink does not accept it.
\<close>

definition record_event :: "event \<Rightarrow> world \<Rightarrow> world" where
  "record_event ev s = (if analyticsUp s then s\<lparr>analyticsLog := analyticsLog s @ [ev]\<rparr> else s)"

text \<open>
  \<^verbatim>\<open>logAnalyticsEvent\<close>: the failure of \<^verbatim>\<open>logEvent\<close> is caught and only written to
  the console, so the helper returns in both cases.
\<close>

definition logAnalyticsEvent :: "string \<Rightarrow> (string \<times> param) list \<Rightarrow> unit io" where
  "logAnalyticsEvent eventName eventParams s = (Returned (), record_event (eventName, eventParams) s)"

section \<open>Subscription verification\<close>

text \<open>
  \<^verbatim>\<open>String.prototype.toLowerCase\<close> belongs to the language, not to this module: the
  functions that call it take it as their first argument \<open>toLowerCase\<close>, and what is proved
  of them holds for every function in its place.
\<close>

text \<open>The three equality filters of the query in \<^verbatim>\<open>verifyPremiumStatus\<close>.\<close>

definition active_subscription_of :: "string \<Rightarrow> PremiumUser \<Rightarrow> bool" where
  "active_subscription_of mail d \<longleftrightarrow>
     sub_email d = mail \<and> sub_active d = True \<and> sub_stripeSubscriptionActive d = True"

text \<open>The body of the \<^verbatim>\<open>try\<close> block of \<^verbatim>\<open>verifyPremiumStatus\<close>.\<close>

definition verifyPremiumStatus_try :: "(string \<Rightarrow> string) \<Rightarrow> string \<Rightarrow> verification io" where
  "verifyPremiumStatus_try toLowerCase userId =
     bind_io (getDoc_users userId) (\<lambda>userData.
       case userData of
         None \<Rightarrow> throw_io (JsError None ''User not found'')
       | Some user \<Rightarrow>
           bind_io (getDocs_premiumUsers (active_subscription_of (toLowerCase (email user))))
             (\<lambda>querySnapshot.
           let isPremium' = (querySnapshot \<noteq> []) in
           bind_io now_io (\<lambda>now.
           bind_io (updateDoc_users userId (\<lambda>d. d\<lparr>isPremium := isPremium',
                       lastVerified := Some now,
                       stripeSubscriptionActive := Some isPremium',
                       updatedAt := now\<rparr>)) (\<lambda>_.
           bind_io (logAnalyticsEvent ''premium_status_verified''
                      [(''userId'', PString userId), (''isPremium'', PBool isPremium'),
                       (''timestamp'', PTime now)]) (\<lambda>_.
           return_io \<lparr>res_isPremium = isPremium', res_lastVerified = now,
                      res_error = None\<rparr>)))))"

definition verifyPremiumStatus :: "(string \<Rightarrow> string) \<Rightarrow> string \<Rightarrow> verification io" where
  "verifyPremiumStatus toLowerCase userId =
     try_catch (verifyPremiumStatus_try toLowerCase userId) (\<lambda>error.
       bind_io now_io (\<lambda>now.
       return_io \<lparr>res_isPremium = False, res_lastVerified = now,
                  res_error = Some (message_or_unknown error)\<rparr>))"

section \<open>Identity and profile store\<close>

text \<open>
  \<^verbatim>\<open>getUserData(userId, forceRefresh)\<close>.  The \<^verbatim>\<open>catch\<close> writes to the console and
  throws the error again.
\<close>

definition getUserData :: "(string \<Rightarrow> string) \<Rightarrow> string \<Rightarrow> bool \<Rightarrow> UserData io" where
  "getUserData toLowerCase userId forceRefresh =
     try_catch
       (bind_io (getDoc_users userId) (\<lambda>userDoc.
          case userDoc of
            None \<Rightarrow> throw_io (JsError None ''User document not found'')
          | Some userData \<Rightarrow>
              if forceRefresh then
                bind_io (verifyPremiumStatus toLowerCase userId) (\<lambda>verificationResult.
                  if res_isPremium verificationResult \<noteq> isPremium userData then
                    bind_io now_io (\<lambda>now.
                    bind_io (updateDoc_users userId (\<lambda>d. d\<lparr>isPremium := res_isPremium verificationResult,
                                lastVerified := Some now,
                                updatedAt := now\<rparr>)) (\<lambda>_.
                    return_io (userData\<lparr>isPremium := res_isPremium verificationResult\<rparr>)))
                  else return_io userData)
              else return_io userData))
       (\<lambda>error. throw_io error)"

text \<open>
  The steps of the \<^verbatim>\<open>try\<close> block of \<^verbatim>\<open>addPremiumUser\<close> up to its second write
  (lines 128 to 179): the signed-in account, its profile, the subscription document found
  and updated or else created, and the update of the profile.  It returns the account id.
  The id that \<^verbatim>\<open>doc(premiumUsersRef)\<close> generates for a new subscription document is the
  argument \<open>newDocId\<close>.
\<close>

definition addPremiumUser_writes :: "(string \<Rightarrow> string) \<Rightarrow> string \<Rightarrow> string \<Rightarrow> string io" where
  "addPremiumUser_writes toLowerCase newDocId email' =
     (let normalizedEmail = toLowerCase email' in
      (\<lambda>s. case currentUser s of
         None \<Rightarrow> throw_io (JsError None ''No authenticated user found'') s
       | Some userId \<Rightarrow>
          bind_io (getDoc_users userId) (\<lambda>userDoc.
            if userDoc = None then throw_io (JsError None ''User document not found'')
            else
              bind_io (getDocs_premiumUsers (\<lambda>d. sub_email d = normalizedEmail)) (\<lambda>querySnapshot.
              bind_io
                (case querySnapshot of
                   (docId, _) # _ \<Rightarrow>
                     bind_io now_io (\<lambda>now.
                     bind_io (updateDoc_premiumUsers docId (\<lambda>d. d\<lparr>sub_active := True,
                                 sub_updatedAt := now,
                                 sub_stripeSubscriptionActive := True,
                                 sub_userId := userId\<rparr>)) (\<lambda>_.
                     return_io docId))
                 | [] \<Rightarrow>
                     bind_io now_io (\<lambda>now.
                     bind_io (setDoc_premiumUsers newDocId
                                \<lparr>sub_email = normalizedEmail, sub_userId = userId,
                                 sub_active = True, sub_stripeSubscriptionActive = True,
                                 sub_createdAt = now, sub_updatedAt = now\<rparr>) (\<lambda>_.
                     return_io newDocId)))
                (\<lambda>premiumDocId'.
              bind_io now_io (\<lambda>now.
              bind_io (updateDoc_users userId (\<lambda>d. d\<lparr>isPremium := True,
                          premiumSince := Some now,
                          email := normalizedEmail,
                          premiumDocId := Some premiumDocId',
                          stripeSubscriptionActive := Some True,
                          updatedAt := now,
                          lastVerified := Some now\<rparr>)) (\<lambda>_.
              return_io userId))))) s))"

text \<open>
  \<^verbatim>\<open>addPremiumUser(email)\<close>: the check of the argument (the empty string is the one
  falsy string of JavaScript), then in the \<^verbatim>\<open>try\<close> block the writes, the analytics event
  (its \<^verbatim>\<open>normalizedEmail\<close> is the lower-cased argument) and the closing verification.
  The \<^verbatim>\<open>catch\<close> writes to the console and throws the error again.
\<close>

definition addPremiumUser :: "(string \<Rightarrow> string) \<Rightarrow> string \<Rightarrow> string \<Rightarrow> bool io" where
  "addPremiumUser toLowerCase newDocId email' =
     (if email' = [] then throw_io (JsError None ''Email is required'')
      else
        try_catch
          (bind_io (addPremiumUser_writes toLowerCase newDocId email') (\<lambda>userId.
           bind_io now_io (\<lambda>now.
           bind_io (logAnalyticsEvent ''premium_user_added''
                      [(''userId'', PString userId), (''email'', PString (toLowerCase email')),
                       (''timestamp'', PTime now)]) (\<lambda>_.
           bind_io (verifyPremiumStatus toLowerCase userId) (\<lambda>verificationResult.
             if \<not> res_isPremium verificationResult
             then throw_io (JsError None ''Premium status verification failed after update'')
             else return_io True)))))
          (\<lambda>error. throw_io error))"

definition getAuthErrorMessage :: "string option \<Rightarrow> string" where
  "getAuthErrorMessage errorCode =
     (if errorCode = Some ''auth/invalid-credential'' \<or> errorCode = Some ''auth/wrong-password''
         \<or> errorCode = Some ''auth/user-not-found''
      then ''Invalid email or password. Please try again.''
      else if errorCode = Some ''auth/email-already-in-use''
      then ''This email is already registered. Please sign in instead.''
      else if errorCode = Some ''auth/weak-password''
      then ''Password should be at least 6 characters long.''
      else if errorCode = Some ''auth/invalid-email''
      then ''Please enter a valid email address.''
      else if errorCode = Some ''auth/too-many-requests''
      then ''Too many failed attempts. Please try again later.''
      else if errorCode = Some ''auth/network-request-failed''
      then ''Network error. Please check your connection and try again.''
      else ''An error occurred. Please try again.'')"

text \<open>
  The identity provider's answer to \<^verbatim>\<open>createUserWithEmailAndPassword\<close> is an argument:
  the account id of the new, signed-in account, or the error the provider reports.
\<close>

definition createUserWithEmailAndPassword :: "string outcome \<Rightarrow> string \<Rightarrow> string \<Rightarrow> string io" where
  "createUserWithEmailAndPassword answer email' password s =
     (case answer of
        Returned uid \<Rightarrow> (Returned uid, s\<lparr>currentUser := Some uid\<rparr>)
      | Thrown e \<Rightarrow> (Thrown e, s))"

text \<open>\<^verbatim>\<open>updateProfile(user, { displayName })\<close> of the identity provider.\<close>

definition updateProfile :: "string \<Rightarrow> string \<Rightarrow> unit io" where
  "updateProfile uid displayName = bind_io remote_call (\<lambda>_ s.
     (Returned (), s\<lparr>displayNames := (displayNames s)(uid \<mapsto> displayName)\<rparr>))"

text \<open>\<^verbatim>\<open>createUser(email, password, username)\<close>; it returns the new account (its id).\<close>

definition createUser :: "(string \<Rightarrow> string) \<Rightarrow> string outcome \<Rightarrow> string \<Rightarrow> string \<Rightarrow> string \<Rightarrow> string io" where
  "createUser toLowerCase answer email' password username' =
     try_catch
       (bind_io (createUserWithEmailAndPassword answer email' password) (\<lambda>uid.
        bind_io (updateProfile uid username') (\<lambda>_.
        bind_io (verifyPremiumStatus toLowerCase uid) (\<lambda>isPremium'.
        bind_io now_io (\<lambda>now.
        bind_io (setDoc_users uid
                   \<lparr>username = username',
                    email = toLowerCase email',
                    isPremium = res_isPremium isPremium',
                    premiumSince = None,
                    stripeSessionId = None,
                    stripeSubscriptionActive = None,
                    stripeCustomerId = None,
                    savedRecipes = [],
                    mealPlans = [],
                    preferences = \<lparr>dietaryRestrictions = [], servingSize = 2, theme = Light\<rparr>,
                    lastVerified = None,
                    createdAt = now,
                    updatedAt = now,
                    premiumDocId = None\<rparr>) (\<lambda>_.
        bind_io (logAnalyticsEvent ''user_created''
                   [(''userId'', PString uid), (''timestamp'', PTime now)]) (\<lambda>_.
        return_io uid)))))))
       (\<lambda>error.
          if code error = Some ''auth/email-already-in-use''
          then throw_io (JsError None ''This email is already registered. Please sign in instead.'')
          else throw_io (JsError None (getAuthErrorMessage (code error))))"

section \<open>Generation client\<close>

text \<open>The values \<^verbatim>\<open>JSON.parse\<close> produces; an object is the list of its properties.\<close>

datatype json =
    JNull
  | JBool bool
  | JNumber int
  | JString string
  | JArray "json list"
  | JObject "(string \<times> json) list"

text \<open>
  \<^verbatim>\<open>value.key\<close>: reading a property of \<^verbatim>\<open>null\<close> throws a \<^verbatim>\<open>TypeError\<close>, an
  object has the property or gives \<^verbatim>\<open>undefined\<close> (\<open>None\<close>), and the other values of
  JSON have no property of the names used here.
\<close>

fun get_property :: "json \<Rightarrow> string \<Rightarrow> json option outcome" where
  "get_property JNull key = Thrown (JsError None ''Cannot read properties of null'')"
| "get_property (JObject props) key = Returned (map_of props key)"
| "get_property v key = Returned None"

text \<open>JavaScript's truthiness, as \<^verbatim>\<open>!value\<close> tests it.\<close>

fun truthy :: "json \<Rightarrow> bool" where
  "truthy JNull = False"
| "truthy (JBool b) = b"
| "truthy (JNumber n) = (n \<noteq> 0)"
| "truthy (JString str) = (str \<noteq> [])"
| "truthy (JArray xs) = True"
| "truthy (JObject props) = True"

fun isArray :: "json \<Rightarrow> bool" where
  "isArray (JArray xs) = True"
| "isArray v = False"

text \<open>
  The answer of the generation endpoint to \<^verbatim>\<open>openai.chat.completions.create\<close> is an
  argument: the text of the first choice, or the error of the request.
\<close>

definition chat_completions_create :: "string outcome \<Rightarrow> string io" where
  "chat_completions_create answer s = (answer, s)"

text \<open>
  \<^verbatim>\<open>generateMealPlan()\<close>.  \<^verbatim>\<open>JSON.parse\<close> is the argument \<open>parse\<close>: it returns the
  value or throws its \<^verbatim>\<open>SyntaxError\<close>.  The function returns \<^verbatim>\<open>response.weeklyPlan\<close>.
\<close>

definition generateMealPlan :: "(string \<Rightarrow> json outcome) \<Rightarrow> string outcome \<Rightarrow> json io" where
  "generateMealPlan parse answer =
     try_catch
       (bind_io (chat_completions_create answer) (\<lambda>content.
        bind_io (\<lambda>s. (parse content, s)) (\<lambda>response.
        bind_io now_io (\<lambda>now.
        bind_io (logAnalyticsEvent ''meal_plan_generated'' [(''timestamp'', PTime now)]) (\<lambda>_.
        bind_io (\<lambda>s. (get_property response ''weeklyPlan'', s)) (\<lambda>weeklyPlan.
          case weeklyPlan of
            None \<Rightarrow> throw_io (JsError None ''Invalid meal plan format received'')
          | Some plan \<Rightarrow>
              if \<not> truthy plan \<or> \<not> isArray plan
              then throw_io (JsError None ''Invalid meal plan format received'')
              else return_io plan))))))
       (\<lambda>error.
          bind_io now_io (\<lambda>now.
          bind_io (logAnalyticsEvent ''meal_plan_generation_error''
                     [(''error'', PString (message_or_unknown error)), (''timestamp'', PTime now)]) (\<lambda>_.
          throw_io (JsError None ''Failed to generate meal plan. Please try again.''))))"

section \<open>Sample worlds\<close>

text \<open>
  On strings of ASCII characters, the only ones in the sample worlds,
  \<^verbatim>\<open>String.prototype.toLowerCase\<close> maps the letters \<open>A\<close> to \<open>Z\<close> to \<open>a\<close> to \<open>z\<close> and
  keeps every other character.  This is the lower-casing of the samples.
\<close>

definition sample_lower_char :: "char \<Rightarrow> char" where
  "sample_lower_char c =
     (let n = (of_char c :: nat) in if 65 \<le> n \<and> n \<le> 90 then char_of (n + 32) else c)"

definition sample_toLowerCase :: "string \<Rightarrow> string" where
  "sample_toLowerCase str = map sample_lower_char str"

text \<open>
  A profile whose email is written in capitals, a subscription document stored under the
  lower-cased email, a world that holds both, with the account signed in and every remote
  call succeeding, and the same world when the second remote call to come fails.
\<close>

definition sample_profile :: UserData where
  "sample_profile =
     \<lparr>username = ''user'', email = ''USER@EXAMPLE.COM'', isPremium = False, premiumSince = None,
      stripeSessionId = None, stripeSubscriptionActive = None, stripeCustomerId = None,
      savedRecipes = [], mealPlans = [],
      preferences = \<lparr>dietaryRestrictions = [], servingSize = 2, theme = Light\<rparr>,
      lastVerified = None, createdAt = 1, updatedAt = 1, premiumDocId = None\<rparr>"

definition sample_subscription :: PremiumUser where
  "sample_subscription =
     \<lparr>sub_email = ''user@example.com'', sub_userId = ''u1'', sub_active = True,
      sub_stripeSubscriptionActive = True, sub_createdAt = 2, sub_updatedAt = 2\<rparr>"

definition sample_world :: world where
  "sample_world =
     \<lparr>users = [''u1'' \<mapsto> sample_profile], premiumUsers = [(''p1'', sample_subscription)],
      currentUser = Some ''u1'', displayNames = Map.empty, analyticsLog = [], analyticsUp = True,
      clock = 5, faults = []\<rparr>"

definition offline_world :: world where
  "offline_world = sample_world\<lparr>faults := [None, Some (JsError (Some ''unavailable'') ''The client is offline'')]\<rparr>"

text \<open>The sample world without any subscription document.\<close>

definition unsubscribed_world :: world where
  "unsubscribed_world = sample_world\<lparr>premiumUsers := []\<rparr>"

text \<open>
  The world without subscription documents in which the first four remote calls succeed
  and the fifth fails.
\<close>

definition flaky_world :: world where
  "flaky_world =
     unsubscribed_world\<lparr>faults := [None, None, None, None,
        Some (JsError (Some ''unavailable'') ''The client is offline'')]\<rparr>"

text \<open>
  The text \<^verbatim>\<open>{"weeklyPlan": 7}\<close>, and the values of \<^verbatim>\<open>JSON.parse\<close> on the texts used
  below.
\<close>

definition number_plan_text :: string where
  "number_plan_text = ''{'' @ [CHR 0x22] @ ''weeklyPlan'' @ [CHR 0x22] @ '': 7}''"

definition sample_parse :: "string \<Rightarrow> json outcome" where
  "sample_parse text =
     (if text = ''{}'' then Returned (JObject [])
      else if text = number_plan_text then Returned (JObject [(''weeklyPlan'', JNumber 7)])
      else if text = ''null'' then Returned JNull
      else Thrown (JsError None ''Unexpected token''))"

section \<open>What a call leaves unchanged\<close>

text \<open>
  \<open>same_frame s s'\<close>: the subscription documents, the clock and the signed-in account
  of \<open>s'\<close> are those of \<open>s\<close>, and a script without failures stays one.
\<close>

definition same_frame :: "world \<Rightarrow> world \<Rightarrow> bool" where
  "same_frame s s' \<longleftrightarrow>
     premiumUsers s' = premiumUsers s \<and> clock s' = clock s \<and> currentUser s' = currentUser s
     \<and> (reliable s \<longrightarrow> reliable s')"

section \<open>The document store and the verifier, case by case\<close>

lemma same_frame_refl [simp]: "same_frame s s"
  by (simp add: same_frame_def)

lemma record_event_frame [simp]:
  "users (record_event ev s) = users s"
  "premiumUsers (record_event ev s) = premiumUsers s"
  "currentUser (record_event ev s) = currentUser s"
  "clock (record_event ev s) = clock s"
  "faults (record_event ev s) = faults s"
  "reliable (record_event ev s) = reliable s"
  by (simp_all add: record_event_def reliable_def)

lemma reliable_frame [simp]:
  "reliable (s\<lparr>users := u\<rparr>) = reliable s"
  "reliable (s\<lparr>premiumUsers := pu\<rparr>) = reliable s"
  "reliable (s\<lparr>analyticsLog := l\<rparr>) = reliable s"
  "reliable (s\<lparr>currentUser := c\<rparr>) = reliable s"
  "reliable (s\<lparr>displayNames := dn\<rparr>) = reliable s"
  "reliable (s\<lparr>clock := t\<rparr>) = reliable s"
  by (simp_all add: reliable_def)

lemma remote_call_cases:
  assumes "remote_call s = (out, s')"
  shows "users s' = users s \<and> same_frame s s'
         \<and> (out = Returned () \<or> (\<exists>e. out = Thrown e \<and> \<not> reliable s))"
  using assms
  by (auto simp: remote_call_def reliable_def same_frame_def split: list.splits option.splits)

lemma bind_io_cases:
  assumes "bind_io m k s = (out, s'')"
  shows "(\<exists>e. m s = (Thrown e, s'') \<and> out = Thrown e)
         \<or> (\<exists>a s'. m s = (Returned a, s') \<and> k a s' = (out, s''))"
  using assms by (auto simp: bind_io_def split: prod.splits outcome.splits)

lemma bind_io_Returned:
  assumes "bind_io m k s = (Returned b, s'')"
  obtains a s' where "m s = (Returned a, s')" "k a s' = (Returned b, s'')"
  using bind_io_cases [OF assms] by auto

lemma try_catch_rethrow [simp]: "try_catch m (\<lambda>error. throw_io error) = m"
  by (auto simp: try_catch_def throw_io_def fun_eq_iff split: prod.splits outcome.splits)

lemma try_catch_Returned:
  assumes "try_catch m h s = (Returned a, s')" and "\<And>e s1. fst (h e s1) \<noteq> Returned a"
  shows "m s = (Returned a, s')"
  using assms by (auto simp: try_catch_def split: prod.splits outcome.splits) (metis fst_conv)

lemma getDoc_users_cases:
  assumes "getDoc_users uid s = (out, s')"
  shows "users s' = users s \<and> same_frame s s'
         \<and> (out = Returned (users s uid) \<or> (\<exists>e. out = Thrown e \<and> \<not> reliable s))"
  using assms
  by (auto simp: getDoc_users_def dest!: bind_io_cases remote_call_cases)

lemma getDocs_premiumUsers_cases:
  assumes "getDocs_premiumUsers wheres s = (out, s')"
  shows "users s' = users s \<and> same_frame s s'
         \<and> (out = Returned (filter (\<lambda>(docId, d). wheres d) (premiumUsers s))
             \<or> (\<exists>e. out = Thrown e \<and> \<not> reliable s))"
  using assms
  by (auto simp: getDocs_premiumUsers_def same_frame_def dest!: bind_io_cases remote_call_cases)

lemma updateDoc_users_cases:
  assumes "updateDoc_users uid upd s = (out, s')"
  shows "same_frame s s'
         \<and> ((\<exists>d. out = Returned () \<and> users s uid = Some d \<and> users s' = (users s)(uid \<mapsto> upd d))
             \<or> (\<exists>e. out = Thrown e \<and> users s' = users s \<and> (users s uid = None \<or> \<not> reliable s)))"
  using assms
  by (auto simp: updateDoc_users_def same_frame_def dest!: bind_io_cases remote_call_cases
           split: option.splits)

lemma setDoc_users_cases:
  assumes "setDoc_users uid d s = (out, s')"
  shows "same_frame s s'
         \<and> ((out = Returned () \<and> users s' = (users s)(uid \<mapsto> d))
             \<or> (\<exists>e. out = Thrown e \<and> users s' = users s \<and> \<not> reliable s))"
  using assms
  by (auto simp: setDoc_users_def same_frame_def dest!: bind_io_cases remote_call_cases)

lemma updateDoc_premiumUsers_cases:
  assumes "updateDoc_premiumUsers docId upd s = (out, s')"
  shows "users s' = users s \<and> clock s' = clock s \<and> currentUser s' = currentUser s
         \<and> (reliable s \<longrightarrow> reliable s')
         \<and> ((out = Returned () \<and> docId \<in> fst ` set (premiumUsers s) \<and>
              premiumUsers s' = map (\<lambda>(k, d). if k = docId then (k, upd d) else (k, d)) (premiumUsers s))
             \<or> (\<exists>e. out = Thrown e \<and> premiumUsers s' = premiumUsers s
                   \<and> (docId \<notin> fst ` set (premiumUsers s) \<or> \<not> reliable s)))"
proof -
  from assms [unfolded updateDoc_premiumUsers_def] consider
      (thrown) e where "remote_call s = (Thrown e, s')" "out = Thrown e"
    | (returned) s1 where "remote_call s = (Returned (), s1)"
        "(if docId \<in> fst ` set (premiumUsers s1)
          then (Returned (),
            s1\<lparr>premiumUsers := map (\<lambda>(k, d). if k = docId then (k, upd d) else (k, d)) (premiumUsers s1)\<rparr>)
          else (Thrown (JsError (Some ''not-found'') ''No document to update''), s1)) = (out, s')"
    by (auto dest!: bind_io_cases)
  then show ?thesis
  proof cases
    case thrown
    from remote_call_cases [OF thrown(1)] thrown(2) show ?thesis
      by (simp add: same_frame_def)
  next
    case returned
    note f = remote_call_cases [OF returned(1)]
    show ?thesis
    proof (cases "docId \<in> fst ` set (premiumUsers s)")
      case True
      with f returned(2) show ?thesis by (auto simp: same_frame_def)
    next
      case False
      with f returned(2) show ?thesis by (auto simp: same_frame_def)
    qed
  qed
qed

lemma setDoc_premiumUsers_cases:
  assumes "setDoc_premiumUsers docId d s = (out, s')"
  shows "users s' = users s \<and> clock s' = clock s \<and> currentUser s' = currentUser s
         \<and> (reliable s \<longrightarrow> reliable s')
         \<and> ((out = Returned () \<and>
              premiumUsers s' = (if docId \<in> fst ` set (premiumUsers s)
                then map (\<lambda>(k, d'). if k = docId then (k, d) else (k, d')) (premiumUsers s)
                else premiumUsers s @ [(docId, d)]))
             \<or> (\<exists>e. out = Thrown e \<and> premiumUsers s' = premiumUsers s \<and> \<not> reliable s))"
proof -
  from assms [unfolded setDoc_premiumUsers_def] consider
      (thrown) e where "remote_call s = (Thrown e, s')" "out = Thrown e"
    | (returned) s1 where "remote_call s = (Returned (), s1)" "out = Returned ()"
        "s' = s1\<lparr>premiumUsers :=
          (if docId \<in> fst ` set (premiumUsers s1)
           then map (\<lambda>(k, d'). if k = docId then (k, d) else (k, d')) (premiumUsers s1)
           else premiumUsers s1 @ [(docId, d)])\<rparr>"
    by (auto dest!: bind_io_cases)
  then show ?thesis
  proof cases
    case thrown
    from remote_call_cases [OF thrown(1)] thrown(2) show ?thesis
      by (simp add: same_frame_def)
  next
    case returned
    from remote_call_cases [OF returned(1)] returned(2,3) show ?thesis
      by (simp add: same_frame_def)
  qed
qed

lemma updateProfile_cases:
  assumes "updateProfile uid name s = (out, s')"
  shows "same_frame s s' \<and> users s' = users s
         \<and> (out = Returned () \<or> (\<exists>e. out = Thrown e \<and> \<not> reliable s))"
  using assms
  by (auto simp: updateProfile_def same_frame_def dest!: bind_io_cases remote_call_cases)

lemma query_nonempty_iff:
  "(filter (\<lambda>(docId, d). active_subscription_of mail d) subs \<noteq> []) \<longleftrightarrow>
   (\<exists>d \<in> snd ` set subs. sub_email d = mail \<and> sub_active d \<and> sub_stripeSubscriptionActive d)"
  by (force simp: filter_empty_conv active_subscription_of_def)

text \<open>The two ways the \<^verbatim>\<open>try\<close> block of \<^verbatim>\<open>verifyPremiumStatus\<close> ends: it threw, leaving the profiles as they were, or the profile was verified and rewritten.\<close>

lemma verify_try_cases:
  assumes "verifyPremiumStatus_try toLowerCase uid s = (out, s')"
  shows "same_frame s s' \<and>
     ((\<exists>e. out = Thrown e \<and> users s' = users s \<and> (users s uid = None \<or> \<not> reliable s))
      \<or> (\<exists>p b. users s uid = Some p \<and>
            b = (filter (\<lambda>(docId, d). active_subscription_of (toLowerCase (email p)) d) (premiumUsers s) \<noteq> []) \<and>
            out = Returned \<lparr>res_isPremium = b, res_lastVerified = clock s, res_error = None\<rparr> \<and>
            users s' = (users s)(uid \<mapsto> p\<lparr>isPremium := b, lastVerified := Some (clock s),
               stripeSubscriptionActive := Some b, updatedAt := clock s\<rparr>)))"
proof -
  from assms consider
      (a) e where "getDoc_users uid s = (Thrown e, s')" "out = Thrown e"
    | (b) ud s1 where "getDoc_users uid s = (Returned ud, s1)"
        "(case ud of None \<Rightarrow> throw_io (JsError None ''User not found'')
          | Some user \<Rightarrow>
           bind_io (getDocs_premiumUsers (active_subscription_of (toLowerCase (email user))))
             (\<lambda>querySnapshot.
           let isPremium' = (querySnapshot \<noteq> []) in
           bind_io now_io (\<lambda>now.
           bind_io (updateDoc_users uid (\<lambda>d. d\<lparr>isPremium := isPremium',
                       lastVerified := Some now,
                       stripeSubscriptionActive := Some isPremium',
                       updatedAt := now\<rparr>)) (\<lambda>_.
           bind_io (logAnalyticsEvent ''premium_status_verified''
                      [(''userId'', PString uid), (''isPremium'', PBool isPremium'),
                       (''timestamp'', PTime now)]) (\<lambda>_.
           return_io \<lparr>res_isPremium = isPremium', res_lastVerified = now,
                      res_error = None\<rparr>))))) s1 = (out, s')"
    unfolding verifyPremiumStatus_try_def by (blast dest: bind_io_cases)
  then show ?thesis
  proof cases
    case a
    then show ?thesis by (auto dest!: getDoc_users_cases)
  next
    case b
    from getDoc_users_cases [OF b(1)]
    have s1: "users s1 = users s" "same_frame s s1" "ud = users s uid" by auto
    show ?thesis
    proof (cases ud)
      case None
      with b(2) s1 show ?thesis by (auto simp: throw_io_def)
    next
      case (Some p)
      with b(2) consider
          (c) e where "getDocs_premiumUsers (active_subscription_of (toLowerCase (email p))) s1 = (Thrown e, s')"
                "out = Thrown e"
        | (d) q s2 where "getDocs_premiumUsers (active_subscription_of (toLowerCase (email p))) s1 = (Returned q, s2)"
            "bind_io (updateDoc_users uid (\<lambda>d. d\<lparr>isPremium := (q \<noteq> []),
                       lastVerified := Some (clock s2),
                       stripeSubscriptionActive := Some (q \<noteq> []),
                       updatedAt := clock s2\<rparr>)) (\<lambda>_.
             bind_io (logAnalyticsEvent ''premium_status_verified''
                      [(''userId'', PString uid), (''isPremium'', PBool (q \<noteq> [])),
                       (''timestamp'', PTime (clock s2))]) (\<lambda>_.
             return_io \<lparr>res_isPremium = (q \<noteq> []), res_lastVerified = clock s2,
                      res_error = None\<rparr>)) s2 = (out, s')"
        by (auto simp: Let_def now_io_def dest!: bind_io_cases [where m = "getDocs_premiumUsers _"]
                 simp: bind_io_def [where m = now_io])
      then show ?thesis
      proof cases
        case c
        with s1 show ?thesis
          by (auto dest!: getDocs_premiumUsers_cases simp: same_frame_def)
      next
        case d
        from getDocs_premiumUsers_cases [OF d(1)] s1
        have s2: "users s2 = users s" "same_frame s s2"
          "q = filter (\<lambda>(docId, d). active_subscription_of (toLowerCase (email p)) d) (premiumUsers s)"
          by (auto simp: same_frame_def)
        from d(2) s2 s1(3) Some show ?thesis
          by (auto dest!: bind_io_cases [where m = "updateDoc_users _ _"] updateDoc_users_cases
                simp: bind_io_def [where m = "logAnalyticsEvent _ _"] logAnalyticsEvent_def
                      return_io_def same_frame_def)
      qed
    qed
  qed
qed

lemma verify_cases:
  assumes "verifyPremiumStatus toLowerCase uid s = (out, s')"
  shows "same_frame s s' \<and>
     ((\<exists>e. verifyPremiumStatus_try toLowerCase uid s = (Thrown e, s') \<and>
            out = Returned \<lparr>res_isPremium = False, res_lastVerified = clock s,
                            res_error = Some (message_or_unknown e)\<rparr> \<and>
            users s' = users s \<and> (users s uid = None \<or> \<not> reliable s))
      \<or> (\<exists>p b. users s uid = Some p \<and> verifyPremiumStatus_try toLowerCase uid s = (out, s') \<and>
            b = (filter (\<lambda>(docId, d). active_subscription_of (toLowerCase (email p)) d) (premiumUsers s) \<noteq> []) \<and>
            out = Returned \<lparr>res_isPremium = b, res_lastVerified = clock s, res_error = None\<rparr> \<and>
            users s' = (users s)(uid \<mapsto> p\<lparr>isPremium := b, lastVerified := Some (clock s),
               stripeSubscriptionActive := Some b, updatedAt := clock s\<rparr>)))"
proof -
  obtain out1 s1 where t: "verifyPremiumStatus_try toLowerCase uid s = (out1, s1)"
    by (cases "verifyPremiumStatus_try toLowerCase uid s")
  note c = verify_try_cases [OF t]
  show ?thesis
  proof (cases out1)
    case (Returned r)
    with assms t c show ?thesis
      by (auto simp: verifyPremiumStatus_def try_catch_def)
  next
    case (Thrown e)
    with assms t c show ?thesis
      by (auto simp: verifyPremiumStatus_def try_catch_def bind_io_def now_io_def return_io_def
            same_frame_def)
  qed
qed

lemma verify_missing_profile:
  assumes "verifyPremiumStatus toLowerCase uid s = (out, s')" and "users s uid = None"
  shows "\<exists>r. out = Returned r \<and> res_isPremium r = False \<and> users s' = users s"
  using verify_cases [OF assms(1)] assms(2) by auto

text \<open>Lower-casing a lower-cased string changes nothing, for the lower-casing of the samples.\<close>

lemma sample_toLowerCase_idem: "sample_toLowerCase (sample_toLowerCase str) = sample_toLowerCase str"
  by (simp add: sample_toLowerCase_def sample_lower_char_def Let_def)

section \<open>Granting premium, step by step\<close>

text \<open>
  The branch that updates or creates the subscription document touches no profile; when it
  returns, an active subscription document for the email exists, and it throws only when
  a remote call fails.
\<close>

lemma grant_branch_cases:
  assumes "(case querySnapshot of
        (docId, _) # _ \<Rightarrow>
          bind_io now_io (\<lambda>now.
          bind_io (updateDoc_premiumUsers docId (\<lambda>d. d\<lparr>sub_active := True,
                      sub_updatedAt := now,
                      sub_stripeSubscriptionActive := True,
                      sub_userId := userId\<rparr>)) (\<lambda>_.
          return_io docId))
      | [] \<Rightarrow>
          bind_io now_io (\<lambda>now.
          bind_io (setDoc_premiumUsers newDocId
                     \<lparr>sub_email = mail, sub_userId = userId,
                      sub_active = True, sub_stripeSubscriptionActive = True,
                      sub_createdAt = now, sub_updatedAt = now\<rparr>) (\<lambda>_.
          return_io newDocId))) s = (out, s')"
    and "querySnapshot = filter (\<lambda>(docId, d). sub_email d = mail) (premiumUsers s)"
  shows "users s' = users s \<and> currentUser s' = currentUser s \<and> clock s' = clock s
     \<and> (reliable s \<longrightarrow> reliable s')
     \<and> ((\<exists>premiumDocId'. out = Returned premiumDocId' \<and>
            (\<exists>d \<in> snd ` set (premiumUsers s').
               sub_email d = mail \<and> sub_active d \<and> sub_stripeSubscriptionActive d))
         \<or> (\<exists>e. out = Thrown e \<and> \<not> reliable s))"
proof (cases querySnapshot)
  case Nil
  define new where "new = \<lparr>sub_email = mail, sub_userId = userId,
                      sub_active = True, sub_stripeSubscriptionActive = True,
                      sub_createdAt = clock s, sub_updatedAt = clock s\<rparr>"
  obtain o1 s1 where w: "setDoc_premiumUsers newDocId new s = (o1, s1)"
    by (cases "setDoc_premiumUsers newDocId new s")
  from assms(1) Nil w have os: "out = (case o1 of Returned _ \<Rightarrow> Returned newDocId | Thrown e \<Rightarrow> Thrown e)"
    "s' = s1"
    by (auto simp: bind_io_def now_io_def return_io_def new_def split: outcome.splits)
  note f = setDoc_premiumUsers_cases [OF w]
  show ?thesis
  proof (cases o1)
    case (Thrown e)
    with f os show ?thesis by auto
  next
    case (Returned x)
    with f have pu: "premiumUsers s1 = (if newDocId \<in> fst ` set (premiumUsers s)
                then map (\<lambda>(k, d'). if k = newDocId then (k, new) else (k, d')) (premiumUsers s)
                else premiumUsers s @ [(newDocId, new)])"
      by auto
    have "new \<in> snd ` set (premiumUsers s1)"
    proof (cases "newDocId \<in> fst ` set (premiumUsers s)")
      case True
      then obtain d0 where "(newDocId, d0) \<in> set (premiumUsers s)" by auto
      then have "(newDocId, new) \<in> set (map (\<lambda>(k, d'). if k = newDocId then (k, new) else (k, d')) (premiumUsers s))"
        by force
      with True pu show ?thesis by force
    next
      case False
      with pu show ?thesis by simp
    qed
    then have "\<exists>d \<in> snd ` set (premiumUsers s1).
            sub_email d = mail \<and> sub_active d \<and> sub_stripeSubscriptionActive d"
      by (rule rev_bexI) (simp add: new_def)
    with Returned f os show ?thesis by simp
  qed
next
  case (Cons a rest)
  obtain docId d0 where a: "a = (docId, d0)" by (cases a)
  define upd where "upd = (\<lambda>d::PremiumUser. d\<lparr>sub_active := True,
                      sub_updatedAt := clock s,
                      sub_stripeSubscriptionActive := True,
                      sub_userId := userId\<rparr>)"
  from Cons a assms(2) have "(docId, d0) \<in> set (filter (\<lambda>(docId, d). sub_email d = mail) (premiumUsers s))"
    by (metis list.set_intros(1))
  then have m: "(docId, d0) \<in> set (premiumUsers s)" "sub_email d0 = mail" by auto
  then have i: "docId \<in> fst ` set (premiumUsers s)" by force
  obtain o1 s1 where w: "updateDoc_premiumUsers docId upd s = (o1, s1)"
    by (cases "updateDoc_premiumUsers docId upd s")
  from assms(1) Cons a w have os: "out = (case o1 of Returned _ \<Rightarrow> Returned docId | Thrown e \<Rightarrow> Thrown e)"
    "s' = s1"
    by (auto simp: bind_io_def now_io_def return_io_def upd_def split: outcome.splits)
  note f = updateDoc_premiumUsers_cases [OF w]
  show ?thesis
  proof (cases o1)
    case (Thrown e)
    with f os i show ?thesis by auto
  next
    case (Returned x)
    with f have pu: "premiumUsers s1 = map (\<lambda>(k, d). if k = docId then (k, upd d) else (k, d)) (premiumUsers s)"
      by auto
    from m(1) have "(docId, upd d0) \<in> set (map (\<lambda>(k, d). if k = docId then (k, upd d) else (k, d)) (premiumUsers s))"
      by force
    with pu have "upd d0 \<in> snd ` set (premiumUsers s1)" by force
    then have "\<exists>d \<in> snd ` set (premiumUsers s1).
            sub_email d = mail \<and> sub_active d \<and> sub_stripeSubscriptionActive d"
      by (rule rev_bexI) (simp add: upd_def m(2))
    with Returned f os show ?thesis by simp
  qed
qed

text \<open>
  The writes of a grant: when they return, the signed-in account has a profile with the
  lower-cased email and an active subscription document for that email exists; they throw
  only when nobody is signed in, the profile is missing or a remote call fails.
\<close>

lemma addPremiumUser_writes_cases:
  assumes "addPremiumUser_writes toLowerCase newDocId email' s = (out, s1)"
  shows "currentUser s1 = currentUser s \<and> (reliable s \<longrightarrow> reliable s1) \<and>
     ((\<exists>userId p. out = Returned userId \<and> currentUser s = Some userId \<and>
          users s1 userId = Some p \<and> email p = toLowerCase email' \<and>
          (\<exists>d \<in> snd ` set (premiumUsers s1).
              sub_email d = toLowerCase email' \<and> sub_active d \<and> sub_stripeSubscriptionActive d))
      \<or> (\<exists>e. out = Thrown e \<and>
            (currentUser s = None \<or> (\<exists>userId. currentUser s = Some userId \<and> users s userId = None)
             \<or> \<not> reliable s)))"
proof (cases "currentUser s")
  case None
  with assms show ?thesis
    by (auto simp: addPremiumUser_writes_def Let_def throw_io_def)
next
  case (Some userId)
  define mail where "mail = toLowerCase email'"
  define rest2 where "rest2 = (\<lambda>premiumDocId'.
              bind_io now_io (\<lambda>now.
              bind_io (updateDoc_users userId (\<lambda>d. d\<lparr>isPremium := True,
                          premiumSince := Some now,
                          email := mail,
                          premiumDocId := Some premiumDocId',
                          stripeSubscriptionActive := Some True,
                          updatedAt := now,
                          lastVerified := Some now\<rparr>)) (\<lambda>_.
              return_io userId)))"
  define branch where "branch = (\<lambda>querySnapshot :: (string \<times> PremiumUser) list.
                case querySnapshot of
                   (docId, _) # _ \<Rightarrow>
                     bind_io now_io (\<lambda>now.
                     bind_io (updateDoc_premiumUsers docId (\<lambda>d. d\<lparr>sub_active := True,
                                 sub_updatedAt := now,
                                 sub_stripeSubscriptionActive := True,
                                 sub_userId := userId\<rparr>)) (\<lambda>_.
                     return_io docId))
                 | [] \<Rightarrow>
                     bind_io now_io (\<lambda>now.
                     bind_io (setDoc_premiumUsers newDocId
                                \<lparr>sub_email = mail, sub_userId = userId,
                                 sub_active = True, sub_stripeSubscriptionActive = True,
                                 sub_createdAt = now, sub_updatedAt = now\<rparr>) (\<lambda>_.
                     return_io newDocId)))"
  from assms Some have run:
    "bind_io (getDoc_users userId) (\<lambda>userDoc.
            if userDoc = None then throw_io (JsError None ''User document not found'')
            else
              bind_io (getDocs_premiumUsers (\<lambda>d. sub_email d = mail)) (\<lambda>querySnapshot.
              bind_io (branch querySnapshot) rest2)) s = (out, s1)"
    unfolding addPremiumUser_writes_def Let_def mail_def branch_def rest2_def by simp
  from bind_io_cases [OF run] consider
      (a) e where "getDoc_users userId s = (Thrown e, s1)" "out = Thrown e"
    | (b) ud sa where "getDoc_users userId s = (Returned ud, sa)"
        "(if ud = None then throw_io (JsError None ''User document not found'')
            else
              bind_io (getDocs_premiumUsers (\<lambda>d. sub_email d = mail)) (\<lambda>querySnapshot.
              bind_io (branch querySnapshot) rest2)) sa = (out, s1)"
    by blast
  then show ?thesis
  proof cases
    case a
    from getDoc_users_cases [OF a(1)] a(2) show ?thesis
      by (auto simp: same_frame_def)
  next
    case b
    from getDoc_users_cases [OF b(1)]
    have sa: "users sa = users s" "currentUser sa = currentUser s" "reliable s \<longrightarrow> reliable sa"
      "ud = users s userId"
      by (auto simp: same_frame_def)
    show ?thesis
    proof (cases ud)
      case None
      with b(2) sa Some show ?thesis by (auto simp: throw_io_def)
    next
      case (Some p0)
      with b(2) have "bind_io (getDocs_premiumUsers (\<lambda>d. sub_email d = mail)) (\<lambda>querySnapshot.
              bind_io (branch querySnapshot) rest2) sa = (out, s1)"
        by simp
      from bind_io_cases [OF this] consider
          (c) e where "getDocs_premiumUsers (\<lambda>d. sub_email d = mail) sa = (Thrown e, s1)" "out = Thrown e"
        | (d) q sb where "getDocs_premiumUsers (\<lambda>d. sub_email d = mail) sa = (Returned q, sb)"
            "bind_io (branch q) rest2 sb = (out, s1)"
        by blast
      then show ?thesis
      proof cases
        case c
        from getDocs_premiumUsers_cases [OF c(1)] c(2) sa show ?thesis
          by (auto simp: same_frame_def)
      next
        case d
        from getDocs_premiumUsers_cases [OF d(1)] sa
        have sb: "users sb = users s" "currentUser sb = currentUser s" "reliable s \<longrightarrow> reliable sb"
          "q = filter (\<lambda>(docId, d). sub_email d = mail) (premiumUsers sb)"
          by (auto simp: same_frame_def)
        from bind_io_cases [OF d(2)] consider
            (e) e where "branch q sb = (Thrown e, s1)" "out = Thrown e"
          | (f) pid sc where "branch q sb = (Returned pid, sc)" "rest2 pid sc = (out, s1)"
          by blast
        then show ?thesis
        proof cases
          case e
          from grant_branch_cases [OF e(1) [unfolded branch_def] sb(4)] e(2) sb show ?thesis
            by auto
        next
          case f
          from grant_branch_cases [OF f(1) [unfolded branch_def] sb(4)] sb
          have sc: "users sc = users s" "currentUser sc = currentUser s" "reliable s \<longrightarrow> reliable sc"
            "\<exists>d \<in> snd ` set (premiumUsers sc).
               sub_email d = mail \<and> sub_active d \<and> sub_stripeSubscriptionActive d"
            by auto
          obtain o4 s4 where u: "updateDoc_users userId (\<lambda>d. d\<lparr>isPremium := True,
                          premiumSince := Some (clock sc),
                          email := mail,
                          premiumDocId := Some pid,
                          stripeSubscriptionActive := Some True,
                          updatedAt := clock sc,
                          lastVerified := Some (clock sc)\<rparr>) sc = (o4, s4)"
            by (metis surj_pair)
          from f(2) u have os: "out = (case o4 of Returned _ \<Rightarrow> Returned userId | Thrown e \<Rightarrow> Thrown e)"
            "s1 = s4"
            by (auto simp: rest2_def bind_io_def now_io_def return_io_def split: outcome.splits)
          note g = updateDoc_users_cases [OF u]
          show ?thesis
          proof (cases o4)
            case (Thrown e)
            with g os sc sa(4) Some \<open>currentUser s = Some userId\<close> show ?thesis
              by (auto simp: same_frame_def)
          next
            case (Returned x)
            with g os sc sa(4) Some \<open>currentUser s = Some userId\<close> show ?thesis
              by (auto simp: same_frame_def mail_def)
          qed
        qed
      qed
    qed
  qed
qed

text \<open>
  After the writes, a grant records the analytics event and runs the verifier; it returns
  \<open>true\<close> or throws according to the verifier's result, and its world is the verifier's.
\<close>

lemma addPremiumUser_after_writes:
  assumes "email' \<noteq> []"
      and "addPremiumUser_writes toLowerCase newDocId email' s = (Returned userId, s1)"
  shows "\<exists>r. verifyPremiumStatus toLowerCase userId
                (record_event (''premium_user_added'',
                   [(''userId'', PString userId), (''email'', PString (toLowerCase email')),
                    (''timestamp'', PTime (clock s1))]) s1)
              = (Returned r, snd (addPremiumUser toLowerCase newDocId email' s)) \<and>
             fst (addPremiumUser toLowerCase newDocId email' s) =
               (if res_isPremium r then Returned True
                else Thrown (JsError None ''Premium status verification failed after update''))"
proof -
  define sv where "sv = record_event (''premium_user_added'',
                   [(''userId'', PString userId), (''email'', PString (toLowerCase email')),
                    (''timestamp'', PTime (clock s1))]) s1"
  obtain o2 s2 where v: "verifyPremiumStatus toLowerCase userId sv = (o2, s2)"
    by (cases "verifyPremiumStatus toLowerCase userId sv")
  from verify_cases [OF v] obtain r where r: "o2 = Returned r" by auto
  from assms v r have "addPremiumUser toLowerCase newDocId email' s =
      (if res_isPremium r then Returned True
       else Thrown (JsError None ''Premium status verification failed after update''), s2)"
    by (simp add: addPremiumUser_def bind_io_def now_io_def logAnalyticsEvent_def
          sv_def [symmetric] throw_io_def return_io_def)
  with v r show ?thesis by (simp add: sv_def)
qed

text \<open>A grant that returns has done its writes and passed its closing verification.\<close>

lemma addPremiumUser_success:
  assumes "addPremiumUser toLowerCase newDocId email' s = (Returned ok, s')"
  shows "\<exists>userId s1 r. addPremiumUser_writes toLowerCase newDocId email' s = (Returned userId, s1) \<and>
           verifyPremiumStatus toLowerCase userId
                (record_event (''premium_user_added'',
                   [(''userId'', PString userId), (''email'', PString (toLowerCase email')),
                    (''timestamp'', PTime (clock s1))]) s1) = (Returned r, s') \<and>
           res_isPremium r \<and> ok = True"
proof -
  from assms have ne: "email' \<noteq> []"
    by (auto simp: addPremiumUser_def throw_io_def)
  obtain o1 s1 where w: "addPremiumUser_writes toLowerCase newDocId email' s = (o1, s1)"
    by (cases "addPremiumUser_writes toLowerCase newDocId email' s")
  show ?thesis
  proof (cases o1)
    case (Thrown e)
    with assms ne w show ?thesis
      by (simp add: addPremiumUser_def bind_io_def)
  next
    case (Returned userId)
    with w addPremiumUser_after_writes [OF ne, of toLowerCase newDocId s userId s1] assms
    show ?thesis
      by (auto split: if_splits)
  qed
qed

text \<open>
  With a signed-in account that has a profile, a non-empty argument and remote calls that
  succeed, the writes return and so does the grant: its closing verification cannot fail,
  provided lower-casing a lower-cased string changes nothing.
\<close>

lemma addPremiumUser_reliable:
  assumes "reliable s" and "currentUser s = Some userId" and "users s userId = Some p"
      and "email' \<noteq> []"
      and "toLowerCase (toLowerCase email') = toLowerCase email'"
  shows "fst (addPremiumUser toLowerCase newDocId email' s) = Returned True"
proof -
  obtain o1 s1 where w: "addPremiumUser_writes toLowerCase newDocId email' s = (o1, s1)"
    by (cases "addPremiumUser_writes toLowerCase newDocId email' s")
  from addPremiumUser_writes_cases [OF w] assms(1,2,3)
  obtain p1 where 1: "o1 = Returned userId" "reliable s1" "users s1 userId = Some p1"
    "email p1 = toLowerCase email'"
    "\<exists>d \<in> snd ` set (premiumUsers s1).
        sub_email d = toLowerCase email' \<and> sub_active d \<and> sub_stripeSubscriptionActive d"
    by auto
  from addPremiumUser_after_writes [OF assms(4) w [unfolded 1(1)]]
  obtain r where r: "verifyPremiumStatus toLowerCase userId
                (record_event (''premium_user_added'',
                   [(''userId'', PString userId), (''email'', PString (toLowerCase email')),
                    (''timestamp'', PTime (clock s1))]) s1)
              = (Returned r, snd (addPremiumUser toLowerCase newDocId email' s))"
     "fst (addPremiumUser toLowerCase newDocId email' s) =
               (if res_isPremium r then Returned True
                else Thrown (JsError None ''Premium status verification failed after update''))"
    by blast
  from verify_cases [OF r(1)] 1 assms(5) have "res_isPremium r"
    by (auto simp: query_nonempty_iff)
  with r(2) show ?thesis by simp
qed

section \<open>Reading a profile, step by step\<close>

lemma getUserData_plain_read:
  "users (snd (getUserData toLowerCase userId False s)) = users s \<and>
   premiumUsers (snd (getUserData toLowerCase userId False s)) = premiumUsers s"
proof -
  obtain out s1 where g: "getDoc_users userId s = (out, s1)"
    by (cases "getDoc_users userId s")
  from getDoc_users_cases [OF g] g show ?thesis
    by (auto simp: getUserData_def bind_io_def throw_io_def return_io_def same_frame_def
          split: outcome.splits option.splits)
qed

lemma getUserData_refresh_returned:
  assumes "getUserData toLowerCase userId True s = (Returned d, s')" and "users s userId = Some p"
  shows "\<exists>s1 r s2. getDoc_users userId s = (Returned (Some p), s1) \<and>
           verifyPremiumStatus toLowerCase userId s1 = (Returned r, s2) \<and>
           d = p\<lparr>isPremium := res_isPremium r\<rparr> \<and>
           (res_isPremium r \<noteq> isPremium p \<longrightarrow>
              (\<exists>p'. users s' userId = Some p' \<and> isPremium p' = res_isPremium r)) \<and>
           (res_isPremium r = isPremium p \<longrightarrow> s' = s2)"
proof -
  from assms(1) obtain ud s1 where 1: "getDoc_users userId s = (Returned ud, s1)"
    and k1: "(case ud of
            None \<Rightarrow> throw_io (JsError None ''User document not found'')
          | Some userData \<Rightarrow>
              if True then
                bind_io (verifyPremiumStatus toLowerCase userId) (\<lambda>verificationResult.
                  if res_isPremium verificationResult \<noteq> isPremium userData then
                    bind_io now_io (\<lambda>now.
                    bind_io (updateDoc_users userId (\<lambda>d. d\<lparr>isPremium := res_isPremium verificationResult,
                                lastVerified := Some now,
                                updatedAt := now\<rparr>)) (\<lambda>_.
                    return_io (userData\<lparr>isPremium := res_isPremium verificationResult\<rparr>)))
                  else return_io userData)
              else return_io userData) s1 = (Returned d, s')"
    unfolding getUserData_def try_catch_rethrow by (rule bind_io_Returned)
  from getDoc_users_cases [OF 1] assms(2) have ud: "ud = Some p" by simp
  with k1 obtain r s2 where 2: "verifyPremiumStatus toLowerCase userId s1 = (Returned r, s2)"
    and k2: "(if res_isPremium r \<noteq> isPremium p then
                    bind_io now_io (\<lambda>now.
                    bind_io (updateDoc_users userId (\<lambda>d. d\<lparr>isPremium := res_isPremium r,
                                lastVerified := Some now,
                                updatedAt := now\<rparr>)) (\<lambda>_.
                    return_io (p\<lparr>isPremium := res_isPremium r\<rparr>)))
                  else return_io p) s2 = (Returned d, s')"
    by (auto elim!: bind_io_Returned)
  show ?thesis
  proof (cases "res_isPremium r = isPremium p")
    case True
    with k2 have "d = p" "s' = s2" by (simp_all add: return_io_def)
    with 1 2 ud True show ?thesis by simp
  next
    case False
    with k2 have "d = p\<lparr>isPremium := res_isPremium r\<rparr>
        \<and> (\<exists>p'. users s' userId = Some p' \<and> isPremium p' = res_isPremium r)"
      by (auto simp: bind_io_def [where m = now_io] now_io_def return_io_def
            elim!: bind_io_Returned dest!: updateDoc_users_cases)
    with 1 2 ud False show ?thesis by simp
  qed
qed

lemma getUserData_refresh_reliable:
  assumes "reliable s" and "users s userId = Some p"
  shows "getUserData toLowerCase userId True s =
      (Returned (p\<lparr>isPremium := (\<exists>d \<in> snd ` set (premiumUsers s).
             sub_email d = toLowerCase (email p) \<and> sub_active d \<and> sub_stripeSubscriptionActive d)\<rparr>),
       snd (getUserData toLowerCase userId True s)) \<and>
    users (snd (getUserData toLowerCase userId True s)) =
      (users s)(userId \<mapsto> p\<lparr>isPremium := (\<exists>d \<in> snd ` set (premiumUsers s).
             sub_email d = toLowerCase (email p) \<and> sub_active d \<and> sub_stripeSubscriptionActive d),
         lastVerified := Some (clock s),
         stripeSubscriptionActive := Some (\<exists>d \<in> snd ` set (premiumUsers s).
             sub_email d = toLowerCase (email p) \<and> sub_active d \<and> sub_stripeSubscriptionActive d),
         updatedAt := clock s\<rparr>)"
proof -
  define b where "b = (\<exists>d \<in> snd ` set (premiumUsers s).
             sub_email d = toLowerCase (email p) \<and> sub_active d \<and> sub_stripeSubscriptionActive d)"
  define p1 where "p1 = p\<lparr>isPremium := b, lastVerified := Some (clock s),
         stripeSubscriptionActive := Some b, updatedAt := clock s\<rparr>"
  obtain o1 s1 where g: "getDoc_users userId s = (o1, s1)"
    by (cases "getDoc_users userId s")
  from getDoc_users_cases [OF g] assms
  have 1: "o1 = Returned (Some p)" "users s1 = users s" "premiumUsers s1 = premiumUsers s"
    "clock s1 = clock s" "reliable s1"
    by (auto simp: same_frame_def)
  obtain o2 s2 where v: "verifyPremiumStatus toLowerCase userId s1 = (o2, s2)"
    by (cases "verifyPremiumStatus toLowerCase userId s1")
  from verify_cases [OF v] 1 assms(2)
  have 2: "o2 = Returned \<lparr>res_isPremium = b, res_lastVerified = clock s, res_error = None\<rparr>"
    "users s2 = (users s)(userId \<mapsto> p1)" "clock s2 = clock s" "reliable s2"
    by (auto simp: same_frame_def b_def p1_def query_nonempty_iff)
  obtain o3 s3 where u: "updateDoc_users userId (\<lambda>d. d\<lparr>isPremium := b,
                                lastVerified := Some (clock s),
                                updatedAt := clock s\<rparr>) s2 = (o3, s3)"
    by (cases "updateDoc_users userId (\<lambda>d. d\<lparr>isPremium := b,
                                lastVerified := Some (clock s),
                                updatedAt := clock s\<rparr>) s2")
  from updateDoc_users_cases [OF u] 2
  have 3: "o3 = Returned ()" "users s3 = (users s)(userId \<mapsto> p1)"
    by (auto simp: p1_def)
  have "fst (getUserData toLowerCase userId True s) = Returned (p\<lparr>isPremium := b\<rparr>) \<and>
        users (snd (getUserData toLowerCase userId True s)) = (users s)(userId \<mapsto> p1)"
  proof (cases "b = isPremium p")
    case True
    then have "p\<lparr>isPremium := b\<rparr> = p" by simp
    with True g 1 v 2 show ?thesis
      by (simp add: getUserData_def bind_io_def return_io_def)
  next
    case False
    with g 1 v 2 u 3 show ?thesis
      by (simp add: getUserData_def bind_io_def now_io_def return_io_def)
  qed
  then show ?thesis
    by (simp add: b_def p1_def prod_eq_iff)
qed

section \<open>The verification result\<close>

text \<open>
  Claim C1.  For an account whose profile exists, \<^verbatim>\<open>verifyPremiumStatus\<close> returns; when
  it did not take its fallback (the result has no error string), \<open>isPremium\<close> is true if
  and only if some document of \<^verbatim>\<open>premiumUsers\<close> has the lower-cased profile email,
  \<open>active = true\<close> and \<open>stripeSubscriptionActive = true\<close>, and it takes no fallback
  when the data-store calls succeed.  The match ignores the case of the profile email: a
  document stored under the lower-cased form of an address that differs from the profile
  email only in case (lower-casing makes the two equal) is found.  This holds for every
  lower-casing function, so for the one of the language.
\<close>

theorem verifyPremiumStatus_isPremium_iff:
  assumes "users s accountId = Some profile"
  shows "\<exists>r. fst (verifyPremiumStatus toLowerCase accountId s) = Returned r \<and>
     (reliable s \<longrightarrow> res_error r = None) \<and>
     (res_error r = None \<longrightarrow>
        (res_isPremium r = True \<longleftrightarrow>
           (\<exists>d \<in> snd ` set (premiumUsers s).
               sub_email d = toLowerCase (email profile) \<and> sub_active d = True
               \<and> sub_stripeSubscriptionActive d = True)) \<and>
        (\<forall>d stored. d \<in> snd ` set (premiumUsers s) \<and> sub_email d = toLowerCase stored
             \<and> toLowerCase stored = toLowerCase (email profile)
             \<and> sub_active d = True \<and> sub_stripeSubscriptionActive d = True
           \<longrightarrow> res_isPremium r = True))"
proof -
  obtain out s' where v: "verifyPremiumStatus toLowerCase accountId s = (out, s')"
    by (cases "verifyPremiumStatus toLowerCase accountId s")
  from verify_cases [OF v] assms consider
      (failed) e where "\<not> reliable s"
        "out = Returned \<lparr>res_isPremium = False, res_lastVerified = clock s,
                            res_error = Some (message_or_unknown e)\<rparr>"
    | (verified)
        "out = Returned \<lparr>res_isPremium =
            (filter (\<lambda>(docId, d). active_subscription_of (toLowerCase (email profile)) d) (premiumUsers s) \<noteq> []),
          res_lastVerified = clock s, res_error = None\<rparr>"
    by auto
  then show ?thesis
  proof cases
    case failed
    with v show ?thesis by simp
  next
    case verified
    with v show ?thesis
      by (simp add: query_nonempty_iff) metis
  qed
qed

theorem verifyPremiumStatus_isPremium_iff_witness:
  "users sample_world ''u1'' = Some sample_profile \<and> reliable sample_world \<and>
   email sample_profile = ''USER@EXAMPLE.COM'' \<and>
   sample_subscription \<in> snd ` set (premiumUsers sample_world) \<and>
   sub_email sample_subscription = sample_toLowerCase ''User@Example.com'' \<and>
   (\<exists>r. fst (verifyPremiumStatus sample_toLowerCase ''u1'' sample_world) = Returned r \<and> res_error r = None \<and>
        res_isPremium r = True)"
proof -
  have h1: "users sample_world ''u1'' = Some sample_profile" by (simp add: sample_world_def)
  have h2: "reliable sample_world" by (simp add: sample_world_def reliable_def)
  have h3: "sample_subscription \<in> snd ` set (premiumUsers sample_world)"
    by (simp add: sample_world_def)
  have h4: "sub_email sample_subscription = sample_toLowerCase ''User@Example.com''"
    by code_simp
  have h5: "sample_toLowerCase ''User@Example.com'' = sample_toLowerCase (email sample_profile)"
    by code_simp
  have h6: "sub_active sample_subscription = True \<and> sub_stripeSubscriptionActive sample_subscription = True"
    by (simp add: sample_subscription_def)
  from verifyPremiumStatus_isPremium_iff [OF h1] h2 h3 h4 h5 h6
  have "\<exists>r. fst (verifyPremiumStatus sample_toLowerCase ''u1'' sample_world) = Returned r \<and> res_error r = None \<and>
        res_isPremium r = True"
    by blast
  with h1 h2 h3 h4 show ?thesis by (simp add: sample_profile_def)
qed

section \<open>Reading a profile with and without a forced refresh\<close>

text \<open>
  Claim C2, as the code has it.  A read without \<^verbatim>\<open>forceRefresh\<close> leaves every stored
  profile as it was.  A read with \<^verbatim>\<open>forceRefresh\<close> that returns has run the verifier on
  the profile it read and returns that profile with the fresh value; when the fresh value
  differs from the stored \<open>isPremium\<close> the stored profile carries the fresh value afterwards,
  and when it is equal \<^verbatim>\<open>getUserData\<close> writes nothing itself: the world is the one the
  verifier left.  But the verifier writes on its own: whenever the profile exists and the
  data-store calls succeed, a forced refresh leaves the stored profile with \<open>isPremium\<close>
  and \<open>stripeSubscriptionActive\<close> set to the fresh value and \<open>lastVerified\<close> and
  \<open>updatedAt\<close> set to the time of the call, whether the value changed or not.
\<close>

theorem getUserData_stored_profile:
  "users (snd (getUserData toLowerCase userId False s)) = users s \<and>
   (\<forall>d s' p. getUserData toLowerCase userId True s = (Returned d, s') \<and> users s userId = Some p \<longrightarrow>
      (\<exists>s1 r s2. getDoc_users userId s = (Returned (Some p), s1) \<and>
           verifyPremiumStatus toLowerCase userId s1 = (Returned r, s2) \<and>
           d = p\<lparr>isPremium := res_isPremium r\<rparr> \<and>
           (res_isPremium r \<noteq> isPremium p \<longrightarrow>
              (\<exists>p'. users s' userId = Some p' \<and> isPremium p' = res_isPremium r)) \<and>
           (res_isPremium r = isPremium p \<longrightarrow> s' = s2))) \<and>
   (\<forall>p. reliable s \<and> users s userId = Some p \<longrightarrow>
      users (snd (getUserData toLowerCase userId True s)) =
        (users s)(userId \<mapsto> p\<lparr>isPremium := (\<exists>d \<in> snd ` set (premiumUsers s).
             sub_email d = toLowerCase (email p) \<and> sub_active d \<and> sub_stripeSubscriptionActive d),
         lastVerified := Some (clock s),
         stripeSubscriptionActive := Some (\<exists>d \<in> snd ` set (premiumUsers s).
             sub_email d = toLowerCase (email p) \<and> sub_active d \<and> sub_stripeSubscriptionActive d),
         updatedAt := clock s\<rparr>))"
  using getUserData_plain_read [of toLowerCase userId s]
    getUserData_refresh_returned [of toLowerCase userId s]
    getUserData_refresh_reliable [of s userId _ toLowerCase]
  by blast

theorem getUserData_stored_profile_witness:
  "reliable sample_world \<and> users sample_world ''u1'' = Some sample_profile \<and>
   fst (getUserData sample_toLowerCase ''u1'' True sample_world) = Returned (sample_profile\<lparr>isPremium := True\<rparr>) \<and>
   users (snd (getUserData sample_toLowerCase ''u1'' True sample_world)) ''u1''
     = Some (sample_profile\<lparr>isPremium := True, lastVerified := Some 5,
               stripeSubscriptionActive := Some True, updatedAt := 5\<rparr>) \<and>
   (\<exists>p'. users (snd (getUserData sample_toLowerCase ''u1'' True sample_world)) ''u1'' = Some p' \<and> isPremium p' = True) \<and>
   users (snd (getUserData sample_toLowerCase ''u1'' False sample_world)) = users sample_world"
proof -
  have h1: "reliable sample_world" by (simp add: sample_world_def reliable_def)
  have h2: "users sample_world ''u1'' = Some sample_profile" by (simp add: sample_world_def)
  have h3: "fst (getUserData sample_toLowerCase ''u1'' True sample_world) = Returned (sample_profile\<lparr>isPremium := True\<rparr>)"
    by code_simp
  then have h4: "getUserData sample_toLowerCase ''u1'' True sample_world
     = (Returned (sample_profile\<lparr>isPremium := True\<rparr>), snd (getUserData sample_toLowerCase ''u1'' True sample_world))"
    by (metis prod.collapse)
  have h5: "sample_toLowerCase (email sample_profile) = ''user@example.com''" by code_simp
  have h6: "(\<exists>d \<in> snd ` set (premiumUsers sample_world).
             sub_email d = sample_toLowerCase (email sample_profile) \<and> sub_active d \<and> sub_stripeSubscriptionActive d) = True"
    by (simp add: h5) (simp add: sample_world_def sample_subscription_def)
  have h7: "clock sample_world = 5" by (simp add: sample_world_def)
  note t = getUserData_stored_profile [of sample_toLowerCase "''u1''" sample_world]
  from t have a: "users (snd (getUserData sample_toLowerCase ''u1'' False sample_world)) = users sample_world"
    by blast
  from t h1 h2 have "users (snd (getUserData sample_toLowerCase ''u1'' True sample_world)) =
        (users sample_world)(''u1'' \<mapsto> sample_profile\<lparr>isPremium := (\<exists>d \<in> snd ` set (premiumUsers sample_world).
             sub_email d = sample_toLowerCase (email sample_profile) \<and> sub_active d \<and> sub_stripeSubscriptionActive d),
         lastVerified := Some (clock sample_world),
         stripeSubscriptionActive := Some (\<exists>d \<in> snd ` set (premiumUsers sample_world).
             sub_email d = sample_toLowerCase (email sample_profile) \<and> sub_active d \<and> sub_stripeSubscriptionActive d),
         updatedAt := clock sample_world\<rparr>)"
    by blast
  then have b: "users (snd (getUserData sample_toLowerCase ''u1'' True sample_world)) ''u1''
     = Some (sample_profile\<lparr>isPremium := True, lastVerified := Some 5,
               stripeSubscriptionActive := Some True, updatedAt := 5\<rparr>)"
    by (simp only: h6 h7) simp
  from t [THEN conjunct2, THEN conjunct1, rule_format, OF conjI [OF h4 h2]]
  obtain r :: verification where
    c: "sample_profile\<lparr>isPremium := True\<rparr> = sample_profile\<lparr>isPremium := res_isPremium r\<rparr>"
       "res_isPremium r \<noteq> isPremium sample_profile \<longrightarrow>
          (\<exists>p'. users (snd (getUserData sample_toLowerCase ''u1'' True sample_world)) ''u1'' = Some p'
                \<and> isPremium p' = res_isPremium r)"
    by blast
  from c(1) have "res_isPremium r = True"
    by (metis UserData.select_convs(3) UserData.surjective UserData.update_convs(3))
  with c(2) have d: "\<exists>p'. users (snd (getUserData sample_toLowerCase ''u1'' True sample_world)) ''u1'' = Some p'
                \<and> isPremium p' = True"
    by (simp add: sample_profile_def)
  from h1 h2 h3 a b d show ?thesis by simp
qed

text \<open>
  The claim as the specification states it (a forced refresh changes the stored profile
  only if the fresh value differs from the stored one) fails in the sample world without
  subscriptions: the fresh value and the stored value are both \<open>false\<close>, the read returns
  the profile unchanged, and yet the stored profile has a new \<open>lastVerified\<close>, a new
  \<open>updatedAt\<close> and \<open>stripeSubscriptionActive = false\<close>.
\<close>

theorem getUserData_forceRefresh_counterexample:
  "users unsubscribed_world ''u1'' = Some sample_profile \<and>
   isPremium sample_profile = False \<and>
   fst (verifyPremiumStatus sample_toLowerCase ''u1'' unsubscribed_world)
     = Returned \<lparr>res_isPremium = False, res_lastVerified = 5, res_error = None\<rparr> \<and>
   fst (getUserData sample_toLowerCase ''u1'' True unsubscribed_world) = Returned sample_profile \<and>
   users (snd (getUserData sample_toLowerCase ''u1'' True unsubscribed_world)) ''u1''
     = Some (sample_profile\<lparr>lastVerified := Some 5, stripeSubscriptionActive := Some False,
               updatedAt := 5\<rparr>) \<and>
   users (snd (getUserData sample_toLowerCase ''u1'' True unsubscribed_world)) ''u1'' \<noteq> users unsubscribed_world ''u1''"
  by code_simp

section \<open>Granting premium and verifying\<close>

text \<open>
  Claim C3.  When the two writes of \<^verbatim>\<open>addPremiumUser\<close> have succeeded (the subscription
  document and the profile), then whatever its closing verification did, a verification of
  the signed-in account that follows at once on the world the grant left, its data-store
  calls succeeding, returns \<open>isPremium = true\<close>.  The argument is not empty, and
  lower-casing the lower-cased argument changes nothing, as it is for
  \<^verbatim>\<open>String.prototype.toLowerCase\<close>: the verifier lower-cases the stored email again.
\<close>

theorem addPremiumUser_then_verify:
  assumes "email' \<noteq> []"
      and "addPremiumUser_writes toLowerCase newDocId email' s = (Returned accountId, s1)"
      and "toLowerCase (toLowerCase email') = toLowerCase email'"
      and "reliable (snd (addPremiumUser toLowerCase newDocId email' s))"
  shows "currentUser s = Some accountId \<and>
         (\<exists>r. fst (verifyPremiumStatus toLowerCase accountId
                      (snd (addPremiumUser toLowerCase newDocId email' s))) = Returned r \<and>
              res_error r = None \<and> res_isPremium r = True)"
proof -
  define s' where "s' = snd (addPremiumUser toLowerCase newDocId email' s)"
  define sv where "sv = record_event (''premium_user_added'',
                   [(''userId'', PString accountId), (''email'', PString (toLowerCase email')),
                    (''timestamp'', PTime (clock s1))]) s1"
  from addPremiumUser_writes_cases [OF assms(2)]
  obtain p where 1: "currentUser s = Some accountId" "users s1 accountId = Some p"
    "email p = toLowerCase email'"
    "\<exists>d \<in> snd ` set (premiumUsers s1).
        sub_email d = toLowerCase email' \<and> sub_active d \<and> sub_stripeSubscriptionActive d"
    by auto
  from addPremiumUser_after_writes [OF assms(1,2)]
  obtain r0 where c: "verifyPremiumStatus toLowerCase accountId sv = (Returned r0, s')"
    by (auto simp: sv_def s'_def)
  from verify_cases [OF c] 1
  obtain p' where 2: "users s' accountId = Some p'" "email p' = toLowerCase email'"
    "premiumUsers s' = premiumUsers s1"
    by (auto simp: sv_def same_frame_def)
  obtain out2 s2 where v: "verifyPremiumStatus toLowerCase accountId s' = (out2, s2)"
    by (cases "verifyPremiumStatus toLowerCase accountId s'")
  from verify_cases [OF v] 2 1(4) assms(3,4)
  have "out2 = Returned \<lparr>res_isPremium = True, res_lastVerified = clock s', res_error = None\<rparr>"
    by (auto simp: s'_def [symmetric] query_nonempty_iff)
  with v 1(1) show ?thesis by (simp add: s'_def [symmetric])
qed

theorem addPremiumUser_then_verify_witness:
  "fst (verifyPremiumStatus sample_toLowerCase ''u1'' unsubscribed_world)
     = Returned \<lparr>res_isPremium = False, res_lastVerified = 5, res_error = None\<rparr> \<and>
   fst (addPremiumUser_writes sample_toLowerCase ''p2'' ''User@Example.com'' unsubscribed_world)
     = Returned ''u1'' \<and>
   fst (addPremiumUser sample_toLowerCase ''p2'' ''User@Example.com'' unsubscribed_world)
     = Returned True \<and>
   (\<exists>r. fst (verifyPremiumStatus sample_toLowerCase ''u1''
               (snd (addPremiumUser sample_toLowerCase ''p2'' ''User@Example.com'' unsubscribed_world)))
          = Returned r \<and> res_isPremium r = True) \<and>
   fst (addPremiumUser_writes sample_toLowerCase ''p2'' ''User@Example.com'' flaky_world)
     = Returned ''u1'' \<and>
   fst (addPremiumUser sample_toLowerCase ''p2'' ''User@Example.com'' flaky_world)
     = Thrown (JsError None ''Premium status verification failed after update'') \<and>
   reliable (snd (addPremiumUser sample_toLowerCase ''p2'' ''User@Example.com'' flaky_world)) \<and>
   (\<exists>r. fst (verifyPremiumStatus sample_toLowerCase ''u1''
               (snd (addPremiumUser sample_toLowerCase ''p2'' ''User@Example.com'' flaky_world)))
          = Returned r \<and> res_isPremium r = True)"
proof -
  have ne: "''User@Example.com'' \<noteq> []" by simp
  have idem: "sample_toLowerCase (sample_toLowerCase ''User@Example.com'')
                = sample_toLowerCase ''User@Example.com''"
    by (rule sample_toLowerCase_idem)
  have before: "fst (verifyPremiumStatus sample_toLowerCase ''u1'' unsubscribed_world)
     = Returned \<lparr>res_isPremium = False, res_lastVerified = 5, res_error = None\<rparr>"
    by code_simp
  have w1: "fst (addPremiumUser_writes sample_toLowerCase ''p2'' ''User@Example.com'' unsubscribed_world)
     = Returned ''u1''"
    by code_simp
  then have w1': "addPremiumUser_writes sample_toLowerCase ''p2'' ''User@Example.com'' unsubscribed_world
     = (Returned ''u1'',
        snd (addPremiumUser_writes sample_toLowerCase ''p2'' ''User@Example.com'' unsubscribed_world))"
    by (metis prod.collapse)
  have g1: "fst (addPremiumUser sample_toLowerCase ''p2'' ''User@Example.com'' unsubscribed_world)
     = Returned True"
    by code_simp
  have r1: "reliable (snd (addPremiumUser sample_toLowerCase ''p2'' ''User@Example.com'' unsubscribed_world))"
    by code_simp
  have w2: "fst (addPremiumUser_writes sample_toLowerCase ''p2'' ''User@Example.com'' flaky_world)
     = Returned ''u1''"
    by code_simp
  then have w2': "addPremiumUser_writes sample_toLowerCase ''p2'' ''User@Example.com'' flaky_world
     = (Returned ''u1'',
        snd (addPremiumUser_writes sample_toLowerCase ''p2'' ''User@Example.com'' flaky_world))"
    by (metis prod.collapse)
  have g2: "fst (addPremiumUser sample_toLowerCase ''p2'' ''User@Example.com'' flaky_world)
     = Thrown (JsError None ''Premium status verification failed after update'')"
    by code_simp
  have r2: "reliable (snd (addPremiumUser sample_toLowerCase ''p2'' ''User@Example.com'' flaky_world))"
    by code_simp
  from addPremiumUser_then_verify [OF ne w1' idem r1]
  have a: "\<exists>r. fst (verifyPremiumStatus sample_toLowerCase ''u1''
               (snd (addPremiumUser sample_toLowerCase ''p2'' ''User@Example.com'' unsubscribed_world)))
          = Returned r \<and> res_isPremium r = True"
    by blast
  from addPremiumUser_then_verify [OF ne w2' idem r2]
  have b: "\<exists>r. fst (verifyPremiumStatus sample_toLowerCase ''u1''
               (snd (addPremiumUser sample_toLowerCase ''p2'' ''User@Example.com'' flaky_world)))
          = Returned r \<and> res_isPremium r = True"
    by blast
  from before w1 g1 a w2 g2 r2 b show ?thesis by simp
qed

section \<open>The verifier never throws\<close>

text \<open>
  Claim C4.  \<^verbatim>\<open>verifyPremiumStatus\<close> returns for every account id and every world,
  whatever remote call fails: when its \<^verbatim>\<open>try\<close> block throws an error, the result
  is \<open>isPremium = false\<close> with the message of that error attached, and for an account
  without a profile the result is \<open>isPremium = false\<close> with an error string.
\<close>

theorem verifyPremiumStatus_never_throws:
  "\<exists>r. fst (verifyPremiumStatus toLowerCase userId s) = Returned r \<and>
       (\<forall>e. fst (verifyPremiumStatus_try toLowerCase userId s) = Thrown e \<longrightarrow>
            r = \<lparr>res_isPremium = False, res_lastVerified = clock s,
                 res_error = Some (message_or_unknown e)\<rparr>) \<and>
       (users s userId = None \<longrightarrow> res_isPremium r = False \<and> res_error r \<noteq> None)"
proof -
  obtain out s' where v: "verifyPremiumStatus toLowerCase userId s = (out, s')"
    by (cases "verifyPremiumStatus toLowerCase userId s")
  from verify_cases [OF v] consider
      (failed) e where "verifyPremiumStatus_try toLowerCase userId s = (Thrown e, s')"
        "out = Returned \<lparr>res_isPremium = False, res_lastVerified = clock s,
                            res_error = Some (message_or_unknown e)\<rparr>"
    | (verified) p b where "users s userId = Some p"
        "verifyPremiumStatus_try toLowerCase userId s = (out, s')"
        "out = Returned \<lparr>res_isPremium = b, res_lastVerified = clock s, res_error = None\<rparr>"
    by blast
  then show ?thesis
  proof cases
    case failed
    with v show ?thesis by simp
  next
    case verified
    with v show ?thesis by simp
  qed
qed

theorem verifyPremiumStatus_never_throws_witness:
  "users (sample_world\<lparr>users := Map.empty\<rparr>) ''u1'' = None \<and>
   fst (verifyPremiumStatus_try sample_toLowerCase ''u1'' offline_world)
     = Thrown (JsError (Some ''unavailable'') ''The client is offline'') \<and>
   fst (verifyPremiumStatus sample_toLowerCase ''u1'' offline_world)
     = Returned \<lparr>res_isPremium = False, res_lastVerified = 5,
                 res_error = Some ''The client is offline''\<rparr> \<and>
   (\<exists>r. fst (verifyPremiumStatus sample_toLowerCase ''u1'' (sample_world\<lparr>users := Map.empty\<rparr>)) = Returned r \<and>
        res_isPremium r = False \<and> res_error r \<noteq> None)"
proof -
  have h1: "users (sample_world\<lparr>users := Map.empty\<rparr>) ''u1'' = None" by simp
  have h2: "fst (verifyPremiumStatus_try sample_toLowerCase ''u1'' offline_world)
     = Thrown (JsError (Some ''unavailable'') ''The client is offline'')"
    by code_simp
  have c: "clock offline_world = 5" by (simp add: offline_world_def sample_world_def)
  from verifyPremiumStatus_never_throws [of sample_toLowerCase "''u1''" offline_world] h2 c
  have "fst (verifyPremiumStatus sample_toLowerCase ''u1'' offline_world)
     = Returned \<lparr>res_isPremium = False, res_lastVerified = 5,
                 res_error = Some ''The client is offline''\<rparr>" by auto
  moreover from verifyPremiumStatus_never_throws [of sample_toLowerCase "''u1''" "sample_world\<lparr>users := Map.empty\<rparr>"] h1
  have "\<exists>r. fst (verifyPremiumStatus sample_toLowerCase ''u1'' (sample_world\<lparr>users := Map.empty\<rparr>)) = Returned r \<and>
        res_isPremium r = False \<and> res_error r \<noteq> None" by auto
  ultimately show ?thesis using h1 h2 by simp
qed

section \<open>Verifying twice\<close>

text \<open>
  Claim C5.  Two calls of \<^verbatim>\<open>verifyPremiumStatus\<close> for the same account, with the
  subscription documents and the profiles untouched between them (the clock may have
  advanced) and the data-store calls succeeding, return the same \<open>isPremium\<close>; the
  subscription documents are never changed, the stored \<open>isPremium\<close> of the profile after
  the second call is the one after the first, and it is the value returned.
\<close>

theorem verifyPremiumStatus_idempotent:
  assumes "reliable s" and "verifyPremiumStatus toLowerCase accountId s = (out1, s1)"
      and "premiumUsers w = premiumUsers s1" and "users w = users s1" and "reliable w"
      and "verifyPremiumStatus toLowerCase accountId w = (out2, s2)"
  shows "\<exists>r1 r2. out1 = Returned r1 \<and> out2 = Returned r2 \<and>
           res_isPremium r2 = res_isPremium r1 \<and>
           premiumUsers s2 = premiumUsers s \<and>
           map_option isPremium (users s2 accountId) = map_option isPremium (users s1 accountId) \<and>
           (\<forall>p. users s1 accountId = Some p \<longrightarrow> isPremium p = res_isPremium r1)"
proof (cases "users s accountId")
  case None
  from verify_cases [OF assms(2)] None assms(1)
  obtain e1 where 1: "out1 = Returned \<lparr>res_isPremium = False, res_lastVerified = clock s,
             res_error = Some (message_or_unknown e1)\<rparr>"
    "users s1 = users s" "premiumUsers s1 = premiumUsers s"
    by (auto simp: same_frame_def)
  with None assms(4) have "users w accountId = None" by simp
  with verify_cases [OF assms(6)] assms(5)
  obtain e2 where 2: "out2 = Returned \<lparr>res_isPremium = False, res_lastVerified = clock w,
             res_error = Some (message_or_unknown e2)\<rparr>"
    "users s2 = users w" "premiumUsers s2 = premiumUsers w"
    by (auto simp: same_frame_def)
  from 1 2 None assms(3,4) show ?thesis by simp
next
  case (Some p)
  define b where "b = (filter (\<lambda>(docId, d). active_subscription_of (toLowerCase (email p)) d) (premiumUsers s) \<noteq> [])"
  from verify_cases [OF assms(2)] Some assms(1)
  have 1: "out1 = Returned \<lparr>res_isPremium = b, res_lastVerified = clock s, res_error = None\<rparr>"
    "users s1 = (users s)(accountId \<mapsto> p\<lparr>isPremium := b, lastVerified := Some (clock s),
               stripeSubscriptionActive := Some b, updatedAt := clock s\<rparr>)"
    "premiumUsers s1 = premiumUsers s"
    by (auto simp: same_frame_def b_def)
  define p1 where "p1 = p\<lparr>isPremium := b, lastVerified := Some (clock s),
               stripeSubscriptionActive := Some b, updatedAt := clock s\<rparr>"
  have w: "users w accountId = Some p1" "email p1 = email p" "premiumUsers w = premiumUsers s"
    using 1 assms(3,4) by (simp_all add: p1_def)
  from verify_cases [OF assms(6)] w assms(5)
  have 2: "out2 = Returned \<lparr>res_isPremium = b, res_lastVerified = clock w, res_error = None\<rparr>"
    "users s2 = (users w)(accountId \<mapsto> p1\<lparr>isPremium := b, lastVerified := Some (clock w),
               stripeSubscriptionActive := Some b, updatedAt := clock w\<rparr>)"
    "premiumUsers s2 = premiumUsers w"
    by (auto simp: same_frame_def b_def)
  from 1 2 w show ?thesis by (simp add: p1_def)
qed

theorem verifyPremiumStatus_idempotent_witness:
  "reliable sample_world \<and>
   reliable (snd (verifyPremiumStatus sample_toLowerCase ''u1'' sample_world)\<lparr>clock := 9\<rparr>) \<and>
   fst (verifyPremiumStatus sample_toLowerCase ''u1'' sample_world)
     = Returned \<lparr>res_isPremium = True, res_lastVerified = 5, res_error = None\<rparr> \<and>
   (\<exists>r2. fst (verifyPremiumStatus sample_toLowerCase ''u1'' (snd (verifyPremiumStatus sample_toLowerCase ''u1'' sample_world)\<lparr>clock := 9\<rparr>))
            = Returned r2 \<and> res_isPremium r2 = True) \<and>
   map_option isPremium
     (users (snd (verifyPremiumStatus sample_toLowerCase ''u1'' (snd (verifyPremiumStatus sample_toLowerCase ''u1'' sample_world)\<lparr>clock := 9\<rparr>))) ''u1'')
     = map_option isPremium (users (snd (verifyPremiumStatus sample_toLowerCase ''u1'' sample_world)) ''u1'')"
proof -
  define s1 where "s1 = snd (verifyPremiumStatus sample_toLowerCase ''u1'' sample_world)"
  define w where "w = s1\<lparr>clock := 9\<rparr>"
  have h1: "reliable sample_world" by (simp add: sample_world_def reliable_def)
  have r1: "fst (verifyPremiumStatus sample_toLowerCase ''u1'' sample_world)
     = Returned \<lparr>res_isPremium = True, res_lastVerified = 5, res_error = None\<rparr>"
    by code_simp
  then have h2: "verifyPremiumStatus sample_toLowerCase ''u1'' sample_world
     = (Returned \<lparr>res_isPremium = True, res_lastVerified = 5, res_error = None\<rparr>, s1)"
    unfolding s1_def by (metis prod.collapse)
  have h3: "premiumUsers w = premiumUsers s1" and h4: "users w = users s1"
    by (simp_all add: w_def)
  have h5: "reliable w" unfolding w_def s1_def by code_simp
  have h6: "verifyPremiumStatus sample_toLowerCase ''u1'' w
     = (fst (verifyPremiumStatus sample_toLowerCase ''u1'' w), snd (verifyPremiumStatus sample_toLowerCase ''u1'' w))"
    by simp
  from verifyPremiumStatus_idempotent [OF h1 h2 h3 h4 h5 h6] h1 h5 r1
  show ?thesis unfolding w_def s1_def by auto
qed

section \<open>Creating an account\<close>

text \<open>
  Claim C6.  When the identity provider answers \<^verbatim>\<open>createUserWithEmailAndPassword\<close> with
  the error code \<^verbatim>\<open>auth/email-already-in-use\<close>, \<^verbatim>\<open>createUser\<close> throws an error with the
  message \<^verbatim>\<open>This email is already registered. Please sign in instead.\<close> and changes
  nothing; this is not the message that \<^verbatim>\<open>getAuthErrorMessage\<close> gives for a code it does
  not know.
\<close>

theorem createUser_duplicate_email:
  "createUser toLowerCase (Thrown (JsError (Some ''auth/email-already-in-use'') m)) email' password username' s
     = (Thrown (JsError None ''This email is already registered. Please sign in instead.''), s)
   \<and> getAuthErrorMessage None = ''An error occurred. Please try again.''
   \<and> ''This email is already registered. Please sign in instead.'' \<noteq> getAuthErrorMessage None"
  by (simp add: createUser_def try_catch_def bind_io_def createUserWithEmailAndPassword_def
        throw_io_def getAuthErrorMessage_def)

section \<open>A malformed meal plan\<close>

text \<open>
  Claim C7.  When the text of the completion parses to a value whose \<^verbatim>\<open>weeklyPlan\<close>
  property is missing or is not an array (the value \<^verbatim>\<open>null\<close>, whose property cannot be
  read, included), \<^verbatim>\<open>generateMealPlan\<close> throws an error with the message
  \<^verbatim>\<open>Failed to generate meal plan. Please try again.\<close>
\<close>

theorem generateMealPlan_malformed_response:
  assumes "parse content = Returned response"
      and "\<forall>plan. get_property response ''weeklyPlan'' = Returned (Some plan) \<longrightarrow> \<not> isArray plan"
  shows "fst (generateMealPlan parse (Returned content) s)
           = Thrown (JsError None ''Failed to generate meal plan. Please try again.'')"
proof (cases "get_property response ''weeklyPlan''")
  case (Thrown e)
  with assms(1) show ?thesis
    by (simp add: generateMealPlan_def try_catch_def bind_io_def chat_completions_create_def
          now_io_def logAnalyticsEvent_def throw_io_def)
next
  case (Returned w)
  show ?thesis
  proof (cases w)
    case None
    with Returned assms(1) show ?thesis
      by (simp add: generateMealPlan_def try_catch_def bind_io_def chat_completions_create_def
          now_io_def logAnalyticsEvent_def throw_io_def)
  next
    case (Some plan)
    with Returned assms(2) have "\<not> isArray plan" by simp
    with Some Returned assms(1) show ?thesis
      by (simp add: generateMealPlan_def try_catch_def bind_io_def chat_completions_create_def
          now_io_def logAnalyticsEvent_def throw_io_def)
  qed
qed

theorem generateMealPlan_malformed_response_witness:
  "sample_parse ''{}'' = Returned (JObject []) \<and>
   get_property (JObject []) ''weeklyPlan'' = Returned None \<and>
   fst (generateMealPlan sample_parse (Returned ''{}'') sample_world)
     = Thrown (JsError None ''Failed to generate meal plan. Please try again.'') \<and>
   sample_parse number_plan_text = Returned (JObject [(''weeklyPlan'', JNumber 7)]) \<and>
   get_property (JObject [(''weeklyPlan'', JNumber 7)]) ''weeklyPlan'' = Returned (Some (JNumber 7)) \<and>
   \<not> isArray (JNumber 7) \<and>
   fst (generateMealPlan sample_parse (Returned number_plan_text) sample_world)
     = Thrown (JsError None ''Failed to generate meal plan. Please try again.'')"
proof -
  have p1: "sample_parse ''{}'' = Returned (JObject [])"
    by (simp add: sample_parse_def)
  have p2: "sample_parse number_plan_text = Returned (JObject [(''weeklyPlan'', JNumber 7)])"
    by (simp add: sample_parse_def number_plan_text_def)
  have a: "get_property (JObject []) ''weeklyPlan'' = Returned None"
    by simp
  have b: "get_property (JObject [(''weeklyPlan'', JNumber 7)]) ''weeklyPlan''
             = Returned (Some (JNumber 7))"
    by simp
  have 1: "fst (generateMealPlan sample_parse (Returned ''{}'') sample_world)
     = Thrown (JsError None ''Failed to generate meal plan. Please try again.'')"
    by (rule generateMealPlan_malformed_response [where parse = sample_parse, OF p1]) (simp add: a)
  have 2: "fst (generateMealPlan sample_parse (Returned number_plan_text) sample_world)
     = Thrown (JsError None ''Failed to generate meal plan. Please try again.'')"
    by (rule generateMealPlan_malformed_response [where parse = sample_parse, OF p2]) (simp add: b)
  from p1 p2 a b 1 2 show ?thesis by simp
qed

section \<open>The profile of a new account\<close>

text \<open>
  Claim C8.  When \<^verbatim>\<open>createUser\<close> returns the new account, for which no profile existed
  before the call, the profile it wrote has \<open>isPremium = false\<close> (and the lower-cased
  email), whatever subscription documents exist: the verification ran before the profile
  was written and found no profile.
\<close>

theorem createUser_profile_not_premium:
  assumes "createUser toLowerCase answer email' password username' s = (Returned uid, s')"
      and "users s uid = None"
  shows "answer = Returned uid \<and>
         (\<exists>p. users s' uid = Some p \<and> isPremium p = False \<and> email p = toLowerCase email')"
proof -
  from assms(1) have body:
    "bind_io (createUserWithEmailAndPassword answer email' password) (\<lambda>uid.
        bind_io (updateProfile uid username') (\<lambda>_.
        bind_io (verifyPremiumStatus toLowerCase uid) (\<lambda>isPremium'.
        bind_io now_io (\<lambda>now.
        bind_io (setDoc_users uid
                   \<lparr>username = username',
                    email = toLowerCase email',
                    isPremium = res_isPremium isPremium',
                    premiumSince = None,
                    stripeSessionId = None,
                    stripeSubscriptionActive = None,
                    stripeCustomerId = None,
                    savedRecipes = [],
                    mealPlans = [],
                    preferences = \<lparr>dietaryRestrictions = [], servingSize = 2, theme = Light\<rparr>,
                    lastVerified = None,
                    createdAt = now,
                    updatedAt = now,
                    premiumDocId = None\<rparr>) (\<lambda>_.
        bind_io (logAnalyticsEvent ''user_created''
                   [(''userId'', PString uid), (''timestamp'', PTime now)]) (\<lambda>_.
        return_io uid)))))) s = (Returned uid, s')"
    unfolding createUser_def
    by (rule try_catch_Returned) (simp add: throw_io_def)
  then obtain u s1 where 1: "createUserWithEmailAndPassword answer email' password s = (Returned u, s1)"
    and k1: "bind_io (updateProfile u username') (\<lambda>_.
        bind_io (verifyPremiumStatus toLowerCase u) (\<lambda>isPremium'.
        bind_io now_io (\<lambda>now.
        bind_io (setDoc_users u
                   \<lparr>username = username',
                    email = toLowerCase email',
                    isPremium = res_isPremium isPremium',
                    premiumSince = None,
                    stripeSessionId = None,
                    stripeSubscriptionActive = None,
                    stripeCustomerId = None,
                    savedRecipes = [],
                    mealPlans = [],
                    preferences = \<lparr>dietaryRestrictions = [], servingSize = 2, theme = Light\<rparr>,
                    lastVerified = None,
                    createdAt = now,
                    updatedAt = now,
                    premiumDocId = None\<rparr>) (\<lambda>_.
        bind_io (logAnalyticsEvent ''user_created''
                   [(''userId'', PString u), (''timestamp'', PTime now)]) (\<lambda>_.
        return_io u))))) s1 = (Returned uid, s')"
    by (rule bind_io_Returned)
  from 1 have a: "answer = Returned u" "users s1 = users s"
    by (auto simp: createUserWithEmailAndPassword_def split: outcome.splits)
  from k1 obtain x s2 where 2: "updateProfile u username' s1 = (Returned x, s2)"
    and k2: "bind_io (verifyPremiumStatus toLowerCase u) (\<lambda>isPremium'.
        bind_io now_io (\<lambda>now.
        bind_io (setDoc_users u
                   \<lparr>username = username',
                    email = toLowerCase email',
                    isPremium = res_isPremium isPremium',
                    premiumSince = None,
                    stripeSessionId = None,
                    stripeSubscriptionActive = None,
                    stripeCustomerId = None,
                    savedRecipes = [],
                    mealPlans = [],
                    preferences = \<lparr>dietaryRestrictions = [], servingSize = 2, theme = Light\<rparr>,
                    lastVerified = None,
                    createdAt = now,
                    updatedAt = now,
                    premiumDocId = None\<rparr>) (\<lambda>_.
        bind_io (logAnalyticsEvent ''user_created''
                   [(''userId'', PString u), (''timestamp'', PTime now)]) (\<lambda>_.
        return_io u)))) s2 = (Returned uid, s')"
    by (rule bind_io_Returned)
  from updateProfile_cases [OF 2] a have b: "users s2 = users s" by simp
  from k2 obtain r s3 where 3: "verifyPremiumStatus toLowerCase u s2 = (Returned r, s3)"
    and k3: "bind_io now_io (\<lambda>now.
        bind_io (setDoc_users u
                   \<lparr>username = username',
                    email = toLowerCase email',
                    isPremium = res_isPremium r,
                    premiumSince = None,
                    stripeSessionId = None,
                    stripeSubscriptionActive = None,
                    stripeCustomerId = None,
                    savedRecipes = [],
                    mealPlans = [],
                    preferences = \<lparr>dietaryRestrictions = [], servingSize = 2, theme = Light\<rparr>,
                    lastVerified = None,
                    createdAt = now,
                    updatedAt = now,
                    premiumDocId = None\<rparr>) (\<lambda>_.
        bind_io (logAnalyticsEvent ''user_created''
                   [(''userId'', PString u), (''timestamp'', PTime now)]) (\<lambda>_.
        return_io u))) s3 = (Returned uid, s')"
    by (rule bind_io_Returned)
  from k3 have u: "u = uid"
    by (auto simp: bind_io_def now_io_def logAnalyticsEvent_def return_io_def
          split: prod.splits outcome.splits)
  with assms(2) b have "users s2 u = None" by simp
  from verify_missing_profile [OF 3 this] have c: "res_isPremium r = False" "users s3 = users s2"
    by auto
  from k3 c u have "\<exists>p. users s' uid = Some p \<and> isPremium p = False \<and> email p = toLowerCase email'"
    by (auto simp: bind_io_def [where m = now_io] now_io_def
             bind_io_def [where m = "logAnalyticsEvent _ _"] logAnalyticsEvent_def return_io_def
          elim!: bind_io_Returned dest!: setDoc_users_cases)
  with a u show ?thesis by simp
qed

theorem createUser_profile_not_premium_witness:
  "users sample_world ''u2'' = None \<and>
   sample_subscription \<in> snd ` set (premiumUsers sample_world) \<and>
   sub_email sample_subscription = sample_toLowerCase ''User@Example.com'' \<and>
   sub_active sample_subscription = True \<and>
   sub_stripeSubscriptionActive sample_subscription = True \<and>
   fst (createUser sample_toLowerCase (Returned ''u2'') ''User@Example.com'' ''secret1'' ''cook'' sample_world)
     = Returned ''u2'' \<and>
   (\<exists>p. users (snd (createUser sample_toLowerCase (Returned ''u2'') ''User@Example.com'' ''secret1'' ''cook'' sample_world)) ''u2''
          = Some p \<and> isPremium p = False \<and> email p = sample_toLowerCase ''User@Example.com'')"
proof -
  have h1: "users sample_world ''u2'' = None" by (simp add: sample_world_def)
  have h2: "fst (createUser sample_toLowerCase (Returned ''u2'') ''User@Example.com'' ''secret1'' ''cook'' sample_world)
     = Returned ''u2''"
    by code_simp
  then have h3: "createUser sample_toLowerCase (Returned ''u2'') ''User@Example.com'' ''secret1'' ''cook'' sample_world
     = (Returned ''u2'', snd (createUser sample_toLowerCase (Returned ''u2'') ''User@Example.com'' ''secret1'' ''cook'' sample_world))"
    by (metis prod.collapse)
  have h4: "sub_email sample_subscription = sample_toLowerCase ''User@Example.com''" by code_simp
  from createUser_profile_not_premium [OF h3 h1] h1 h2 h4 show ?thesis
    by (simp add: sample_world_def sample_subscription_def)
qed

section \<open>The email of the profile after a grant\<close>

text \<open>
  Claim C9.  When \<^verbatim>\<open>addPremiumUser\<close> returns, the profile of the signed-in account has
  the lower-cased argument as its email, whatever email it had before and whatever the
  lower-casing function is.
\<close>

theorem addPremiumUser_overwrites_email:
  assumes "addPremiumUser toLowerCase newDocId email' s = (Returned ok, s')"
  shows "\<exists>userId p. currentUser s = Some userId \<and> users s' userId = Some p \<and>
           email p = toLowerCase email'"
proof -
  from addPremiumUser_success [OF assms] obtain uid s1 r where
    g: "addPremiumUser_writes toLowerCase newDocId email' s = (Returned uid, s1)"
       "verifyPremiumStatus toLowerCase uid
                (record_event (''premium_user_added'',
                   [(''userId'', PString uid), (''email'', PString (toLowerCase email')),
                    (''timestamp'', PTime (clock s1))]) s1) = (Returned r, s')"
       "res_isPremium r"
    by blast
  from addPremiumUser_writes_cases [OF g(1)]
  obtain p where 1: "currentUser s = Some uid" "users s1 uid = Some p"
    "email p = toLowerCase email'"
    by auto
  from verify_cases [OF g(2)] 1
  obtain p' where "users s' uid = Some p'" "email p' = toLowerCase email'"
    by auto
  with 1(1) show ?thesis by simp
qed

theorem addPremiumUser_overwrites_email_witness:
  "fst (addPremiumUser sample_toLowerCase ''p2'' ''Other@Example.com'' sample_world) = Returned True \<and>
   users sample_world ''u1'' = Some sample_profile \<and>
   email sample_profile = ''USER@EXAMPLE.COM'' \<and>
   (\<exists>p. users (snd (addPremiumUser sample_toLowerCase ''p2'' ''Other@Example.com'' sample_world)) ''u1'' = Some p \<and>
        email p = ''other@example.com'')"
proof -
  have h1: "fst (addPremiumUser sample_toLowerCase ''p2'' ''Other@Example.com'' sample_world) = Returned True"
    by code_simp
  then have h2: "addPremiumUser sample_toLowerCase ''p2'' ''Other@Example.com'' sample_world
     = (Returned True, snd (addPremiumUser sample_toLowerCase ''p2'' ''Other@Example.com'' sample_world))"
    by (metis prod.collapse)
  have h3: "sample_toLowerCase ''Other@Example.com'' = ''other@example.com''" by code_simp
  have h4: "currentUser sample_world = Some ''u1''" by (simp add: sample_world_def)
  from addPremiumUser_overwrites_email [OF h2] h3 h4
  have "\<exists>p. users (snd (addPremiumUser sample_toLowerCase ''p2'' ''Other@Example.com'' sample_world)) ''u1'' = Some p \<and>
        email p = ''other@example.com''"
    by auto
  with h1 show ?thesis by (simp add: sample_world_def sample_profile_def)
qed


section \<open>What a successful verification writes\<close>

text \<open>
  Claim C10.  When \<^verbatim>\<open>verifyPremiumStatus\<close> returns without an error string (it did not
  take its fallback), the profile of the account existed and has been rewritten with
  \<open>isPremium\<close> and \<open>stripeSubscriptionActive\<close> both set to the computed value and with
  \<open>lastVerified\<close> and \<open>updatedAt\<close> set to the time of the call; no other profile changes.
\<close>

theorem verifyPremiumStatus_writes_stripeSubscriptionActive:
  assumes "verifyPremiumStatus toLowerCase userId s = (Returned r, s')" and "res_error r = None"
  shows "\<exists>p. users s userId = Some p \<and>
     users s' = (users s)(userId \<mapsto>
        p\<lparr>isPremium := res_isPremium r, lastVerified := Some (clock s),
          stripeSubscriptionActive := Some (res_isPremium r), updatedAt := clock s\<rparr>)"
  using verify_cases [OF assms(1)] assms(2) by auto

theorem verifyPremiumStatus_writes_stripeSubscriptionActive_witness:
  "fst (verifyPremiumStatus sample_toLowerCase ''u1'' sample_world)
     = Returned \<lparr>res_isPremium = True, res_lastVerified = 5, res_error = None\<rparr> \<and>
   users sample_world ''u1'' = Some sample_profile \<and>
   users (snd (verifyPremiumStatus sample_toLowerCase ''u1'' sample_world)) ''u1''
     = Some (sample_profile\<lparr>isPremium := True, lastVerified := Some 5,
          stripeSubscriptionActive := Some True, updatedAt := 5\<rparr>)"
proof -
  have r: "fst (verifyPremiumStatus sample_toLowerCase ''u1'' sample_world)
     = Returned \<lparr>res_isPremium = True, res_lastVerified = 5, res_error = None\<rparr>"
    by code_simp
  then have v: "verifyPremiumStatus sample_toLowerCase ''u1'' sample_world
     = (Returned \<lparr>res_isPremium = True, res_lastVerified = 5, res_error = None\<rparr>,
        snd (verifyPremiumStatus sample_toLowerCase ''u1'' sample_world))"
    by (metis prod.collapse)
  have p: "users sample_world ''u1'' = Some sample_profile" "clock sample_world = 5"
    by (simp_all add: sample_world_def)
  from verifyPremiumStatus_writes_stripeSubscriptionActive [OF v] p r show ?thesis
    by auto
qed

end
